theory Spec2Isabelle
  imports Main "HOL-Library.Multiset"
begin

section \<open>JavaScript values and string helpers\<close>

text \<open>
  Request fields (\<open>req.query\<close>, \<open>req.body\<close>) and nullable columns are modelled as
  \<open>string option\<close>: \<open>None\<close> is JavaScript \<open>undefined\<close>/\<open>null\<close> (SQL \<open>NULL\<close>).
  A string is truthy when it is not empty.
\<close>

fun truthy :: "string option \<Rightarrow> bool" where
  "truthy None = False"
| "truthy (Some s) = (s \<noteq> [])"

text \<open>\<open>String.prototype.split(sep)\<close> for a one-character separator: the empty string
  splits into one empty piece.\<close>

fun split :: "char \<Rightarrow> string \<Rightarrow> string list" where
  "split c [] = [ [] ]"
| "split c (x # xs) =
     (if x = c then [] # split c xs
      else (case split c xs of [] \<Rightarrow> [ [x] ] | w # ws \<Rightarrow> (x # w) # ws))"

text \<open>\<open>Array.prototype.join(sep)\<close>.\<close>

fun join :: "string \<Rightarrow> string list \<Rightarrow> string" where
  "join sep [] = []"
| "join sep [x] = x"
| "join sep (x # y # zs) = x @ sep @ join sep (y # zs)"

text \<open>\<open>text.replace(/pat/g, rep)\<close> for a literal pattern: leftmost matches, not overlapping.\<close>

function replaceAll :: "string \<Rightarrow> string \<Rightarrow> string \<Rightarrow> string" where
  "replaceAll pat rep [] = []"
| "replaceAll pat rep (c # cs) =
     (if pat \<noteq> [] \<and> take (length pat) (c # cs) = pat
      then rep @ replaceAll pat rep (drop (length pat) (c # cs))
      else c # replaceAll pat rep cs)"
  by pat_completeness auto
termination
  by (relation "measure (\<lambda>(pat, rep, s). length s)") auto

section \<open>The query builder of \<open>TasksControllerV2\<close>\<close>

text \<open>The query options that \<open>getQuery\<close> reads from \<open>req.query\<close>.\<close>

record options =
  search :: "string option"
  parent_task :: "string option"
  statuses :: "string option"
  labels :: "string option"
  members :: "string option"
  projects :: "string option"
  priorities :: "string option"
  filterBy :: "string option"
  customColumns :: "string option"
  archived :: "string option"
  isSubtasksInclude :: "string option"

text \<open>What \<open>getQuery\<close> takes from \<open>toPaginationOptions\<close>, a method of the base controller.\<close>

record pagination =
  searchQuery :: string
  sortField :: string

definition flatString :: "string option \<Rightarrow> string" where
  "flatString text =
     join '','' (map (\<lambda>s. [CHR 0x27] @ s @ [CHR 0x27])
       (split CHR '' '' (case text of None \<Rightarrow> [] | Some t \<Rightarrow> t)))"

definition getFilterByStatusWhereClosure :: "string option \<Rightarrow> string" where
  "getFilterByStatusWhereClosure text =
     (if truthy text then ''status_id IN ('' @ flatString text @ '')'' else [])"

definition getFilterByPriorityWhereClosure :: "string option \<Rightarrow> string" where
  "getFilterByPriorityWhereClosure text =
     (if truthy text then ''priority_id IN ('' @ flatString text @ '')'' else [])"

definition getFilterByLabelsWhereClosure :: "string option \<Rightarrow> string" where
  "getFilterByLabelsWhereClosure text =
     (if truthy text
      then ''id IN (SELECT task_id FROM task_labels WHERE label_id IN ('' @ flatString text @ ''))''
      else [])"

definition getFilterByMembersWhereClosure :: "string option \<Rightarrow> string" where
  "getFilterByMembersWhereClosure text =
     (if truthy text
      then ''id IN (SELECT task_id FROM tasks_assignees WHERE team_member_id IN (''
             @ flatString text @ ''))''
      else [])"

definition getFilterByProjectsWhereClosure :: "string option \<Rightarrow> string" where
  "getFilterByProjectsWhereClosure text =
     (if truthy text then ''project_id IN ('' @ flatString text @ '')'' else [])"

definition getFilterByAssignee :: "string option \<Rightarrow> string" where
  "getFilterByAssignee fb =
     (if fb = Some ''member''
      then ''id IN (SELECT task_id FROM tasks_assignees WHERE team_member_id = $1)''
      else ''project_id = $1'')"

text \<open>The fixed text of the \<open>SELECT\<close> statement, cut where \<open>getQuery\<close> interpolates.\<close>

definition select_head :: string where
  "select_head = concat
    [''\<newline>'',
     ''      SELECT id,\<newline>'',
     ''             name,\<newline>'',
     ''             CONCAT((SELECT key FROM projects WHERE id = t.project_id), '-', task_no) AS task_key,\<newline>'',
     ''             (SELECT name FROM projects WHERE id = t.project_id) AS project_name,\<newline>'',
     ''             t.project_id AS project_id,\<newline>'',
     ''             t.parent_task_id,\<newline>'',
     ''             t.parent_task_id IS NOT NULL AS is_sub_task,\<newline>'',
     ''             (SELECT name FROM tasks WHERE id = t.parent_task_id) AS parent_task_name,\<newline>'',
     ''             (SELECT COUNT(*)\<newline>'',
     ''              FROM tasks\<newline>'',
     ''              WHERE parent_task_id = t.id)::INT AS sub_tasks_count,\<newline>'',
     ''\<newline>'',
     ''             t.status_id AS status,\<newline>'',
     ''             t.archived,\<newline>'',
     ''             t.description,\<newline>'',
     ''             t.sort_order,\<newline>'',
     ''\<newline>'',
     ''             (SELECT phase_id FROM task_phase WHERE task_id = t.id) AS phase_id,\<newline>'',
     ''             (SELECT name\<newline>'',
     ''              FROM project_phases\<newline>'',
     ''              WHERE id = (SELECT phase_id FROM task_phase WHERE task_id = t.id)) AS phase_name,\<newline>'',
     ''              (SELECT color_code\<newline>'',
     ''                FROM project_phases\<newline>'',
     ''                WHERE id = (SELECT phase_id FROM task_phase WHERE task_id = t.id)) AS phase_color_code,\<newline>'',
     ''\<newline>'',
     ''             (EXISTS(SELECT 1 FROM task_subscribers WHERE task_id = t.id)) AS has_subscribers,\<newline>'',
     ''             (EXISTS(SELECT 1 FROM task_dependencies td WHERE td.task_id = t.id)) AS has_dependencies,\<newline>'',
     ''             (SELECT start_time\<newline>'',
     ''              FROM task_timers\<newline>'',
     ''              WHERE task_id = t.id\<newline>'',
     ''                AND user_id = '' @ [CHR 0x27] ]"

definition select_tail :: string where
  "select_tail = concat
    [ [CHR 0x27] @ '') AS timer_start_time,\<newline>'',
     ''\<newline>'',
     ''             (SELECT color_code\<newline>'',
     ''              FROM sys_task_status_categories\<newline>'',
     ''              WHERE id = (SELECT category_id FROM task_statuses WHERE id = t.status_id)) AS status_color,\<newline>'',
     ''\<newline>'',
     ''             (SELECT color_code_dark\<newline>'',
     ''              FROM sys_task_status_categories\<newline>'',
     ''              WHERE id = (SELECT category_id FROM task_statuses WHERE id = t.status_id)) AS status_color_dark,\<newline>'',
     ''\<newline>'',
     ''             (SELECT COALESCE(ROW_TO_JSON(r), '{}'::JSON)\<newline>'',
     ''              FROM (SELECT is_done, is_doing, is_todo\<newline>'',
     ''                    FROM sys_task_status_categories\<newline>'',
     ''                    WHERE id = (SELECT category_id FROM task_statuses WHERE id = t.status_id)) r) AS status_category,\<newline>'',
     ''\<newline>'',
     ''             (SELECT COUNT(*) FROM task_comments WHERE task_id = t.id) AS comments_count,\<newline>'',
     ''             (SELECT COUNT(*) FROM task_attachments WHERE task_id = t.id) AS attachments_count,\<newline>'',
     ''             (CASE\<newline>'',
     ''                WHEN EXISTS(SELECT 1\<newline>'',
     ''                            FROM tasks_with_status_view\<newline>'',
     ''                            WHERE tasks_with_status_view.task_id = t.id\<newline>'',
     ''                              AND is_done IS TRUE) THEN 1\<newline>'',
     ''                ELSE 0 END) AS parent_task_completed,\<newline>'',
     ''             (SELECT get_task_assignees(t.id)) AS assignees,\<newline>'',
     ''             (SELECT COUNT(*)\<newline>'',
     ''              FROM tasks_with_status_view tt\<newline>'',
     ''              WHERE tt.parent_task_id = t.id\<newline>'',
     ''                AND tt.is_done IS TRUE)::INT\<newline>'',
     ''               AS completed_sub_tasks,\<newline>'',
     ''\<newline>'',
     ''             (SELECT COALESCE(JSON_AGG(r), '[]'::JSON)\<newline>'',
     ''              FROM (SELECT task_labels.label_id AS id,\<newline>'',
     ''                           (SELECT name FROM team_labels WHERE id = task_labels.label_id),\<newline>'',
     ''                           (SELECT color_code FROM team_labels WHERE id = task_labels.label_id)\<newline>'',
     ''                    FROM task_labels\<newline>'',
     ''                    WHERE task_id = t.id) r) AS labels,\<newline>'',
     ''             (SELECT is_completed(status_id, project_id)) AS is_complete,\<newline>'',
     ''             (SELECT name FROM users WHERE id = t.reporter_id) AS reporter,\<newline>'',
     ''             (SELECT id FROM task_priorities WHERE id = t.priority_id) AS priority,\<newline>'',
     ''             (SELECT value FROM task_priorities WHERE id = t.priority_id) AS priority_value,\<newline>'',
     ''             total_minutes,\<newline>'',
     ''             (SELECT SUM(time_spent) FROM task_work_log WHERE task_id = t.id) AS total_minutes_spent,\<newline>'',
     ''             created_at,\<newline>'',
     ''             updated_at,\<newline>'',
     ''             completed_at,\<newline>'',
     ''             start_date,\<newline>'',
     ''             billable,\<newline>'',
     ''             schedule_id,\<newline>'',
     ''             END_DATE '']"

definition customColumnsText :: string where
  "customColumnsText = concat
    ['', (SELECT COALESCE(\<newline>'',
     ''            jsonb_object_agg(\<newline>'',
     ''              custom_cols.key, \<newline>'',
     ''              custom_cols.value\<newline>'',
     ''            ), \<newline>'',
     ''            '{}'::JSONB\<newline>'',
     ''          )\<newline>'',
     ''          FROM (\<newline>'',
     ''            SELECT \<newline>'',
     ''              cc.key,\<newline>'',
     ''              CASE \<newline>'',
     ''                WHEN ccv.text_value IS NOT NULL THEN to_jsonb(ccv.text_value)\<newline>'',
     ''                WHEN ccv.number_value IS NOT NULL THEN to_jsonb(ccv.number_value)\<newline>'',
     ''                WHEN ccv.boolean_value IS NOT NULL THEN to_jsonb(ccv.boolean_value)\<newline>'',
     ''                WHEN ccv.date_value IS NOT NULL THEN to_jsonb(ccv.date_value)\<newline>'',
     ''                WHEN ccv.json_value IS NOT NULL THEN ccv.json_value\<newline>'',
     ''                ELSE NULL::JSONB\<newline>'',
     ''              END AS value\<newline>'',
     ''            FROM cc_column_values ccv\<newline>'',
     ''            JOIN cc_custom_columns cc ON ccv.column_id = cc.id\<newline>'',
     ''            WHERE ccv.task_id = t.id\<newline>'',
     ''          ) AS custom_cols\<newline>'',
     ''          WHERE custom_cols.value IS NOT NULL) AS custom_column_values'']"

definition statusesText :: string where
  "statusesText = concat
    ['', (SELECT COALESCE(JSON_AGG(rec), '[]'::JSON)\<newline>'',
     ''      FROM (SELECT task_statuses.id, task_statuses.name, stsc.color_code\<newline>'',
     ''          FROM task_statuses\<newline>'',
     ''              INNER JOIN sys_task_status_categories stsc ON task_statuses.category_id = stsc.id\<newline>'',
     ''          WHERE project_id = t.project_id\<newline>'',
     ''          ORDER BY task_statuses.name) rec) AS statuses'']"

definition getStatusesQuery :: "string option \<Rightarrow> string" where
  "getStatusesQuery fb = (if fb = Some ''member'' then statusesText else [])"

definition customColumnsQuery :: "options \<Rightarrow> string" where
  "customColumnsQuery opts = (if truthy (customColumns opts) then customColumnsText else [])"

definition isSubTasks :: "options \<Rightarrow> bool" where
  "isSubTasks opts = truthy (parent_task opts)"

definition archivedFilter :: "options \<Rightarrow> string" where
  "archivedFilter opts =
     (if archived opts = Some ''true'' then ''archived IS TRUE'' else ''archived IS FALSE'')"

definition subTasksFilter :: "options \<Rightarrow> string" where
  "subTasksFilter opts =
     (if isSubtasksInclude opts = Some ''true'' then []
      else if isSubTasks opts then ''parent_task_id = $2'' else ''parent_task_id IS NULL'')"

text \<open>
  The array that \<open>filters\<close> is joined from has eight entries. The second and the third
  are named here; the source writes them inline.
\<close>

definition archivedEntry :: "options \<Rightarrow> string" where
  "archivedEntry opts = (if isSubTasks opts then ''1 = 1'' else archivedFilter opts)"

definition assigneeEntry :: "options \<Rightarrow> string" where
  "assigneeEntry opts =
     (if isSubTasks opts then ''$1 = $1'' else getFilterByAssignee (filterBy opts))"

text \<open>The array of fragments after \<open>.filter(i => !!i)\<close>, and the joined text \<open>filters\<close>.\<close>

definition filterFragments :: "options \<Rightarrow> string list" where
  "filterFragments opts =
     filter (\<lambda>i. i \<noteq> [])
       [subTasksFilter opts,
        archivedEntry opts,
        assigneeEntry opts,
        getFilterByStatusWhereClosure (statuses opts),
        getFilterByPriorityWhereClosure (priorities opts),
        getFilterByLabelsWhereClosure (labels opts),
        getFilterByMembersWhereClosure (members opts),
        getFilterByProjectsWhereClosure (projects opts)]"

definition filters :: "options \<Rightarrow> string" where
  "filters opts = join '' AND '' (filterFragments opts)"

definition sortFields :: "string \<Rightarrow> string" where
  "sortFields sf =
     (let s = replaceAll ''descend'' ''DESC'' (replaceAll ''ascend'' ''ASC'' sf)
      in if s = [] then ''sort_order'' else s)"

text \<open>
  \<open>getQuery\<close>. The first argument stands for \<open>toPaginationOptions\<close>, which is inherited from
  the base controller: it receives the options and the search field.
\<close>

definition getQuery :: "(options \<Rightarrow> string \<Rightarrow> pagination) \<Rightarrow> string \<Rightarrow> options \<Rightarrow> string" where
  "getQuery toPaginationOptions userId opts =
     (let searchField = (if truthy (search opts) then ''t.name'' else ''sort_order'');
          p = toPaginationOptions opts searchField
      in select_head @ userId @ select_tail
         @ customColumnsQuery opts @ '' '' @ getStatusesQuery (filterBy opts)
         @ ''\<newline>      FROM tasks t\<newline>      WHERE '' @ filters opts @ '' '' @ searchQuery p
         @ ''\<newline>      ORDER BY '' @ sortFields (sortField p) @ ''\<newline>    '')"

text \<open>\<open>getTasksByName\<close>: the query text and the bound parameters handed to \<open>db.query\<close>.\<close>

definition getTasksByName :: "string \<Rightarrow> string \<Rightarrow> string \<Rightarrow> string \<times> string list" where
  "getTasksByName searchString projectId taskId =
     (''SELECT id AS value ,\<newline>       name AS label,\<newline>''
      @ ''       CONCAT((SELECT key FROM projects WHERE id = t.project_id), '-', task_no) AS task_key\<newline>''
      @ ''      FROM tasks t\<newline>''
      @ ''      WHERE t.name ILIKE '' @ [CHR 0x27] @ ''%'' @ searchString @ ''%'' @ [CHR 0x27] @ ''\<newline>''
      @ ''        AND t.project_id = $1 AND t.id != $2\<newline>''
      @ ''      LIMIT 15;'',
      [projectId, taskId])"

section \<open>Grouping: \<open>updateMapByGroup\<close>\<close>

text \<open>
  The fields of a task row that the grouping and the progress computation read or write.
  \<open>task_id\<close> is the column \<open>id\<close>; \<open>index\<close> is the display index the walk assigns.
\<close>

record status_category =
  is_todo :: "bool option"
  is_doing :: "bool option"
  is_done :: "bool option"

record task =
  task_id :: string
  status :: "string option"
  priority :: "string option"
  phase_id :: "string option"
  index :: "nat option"
  status_category :: "status_category option"

record ITaskGroup =
  name :: string
  category_id :: "string option"
  color_code :: string
  color_code_dark :: "string option"
  start_date :: "string option"
  end_date :: "string option"
  todo_progress :: "int option"
  doing_progress :: "int option"
  done_progress :: "int option"
  tasks :: "task list"

text \<open>
  \<open>GroupBy\<close> is an enumeration of the base controller; \<open>groupBy\<close> itself is a string taken
  from the request, so any other value is possible too.
\<close>

datatype GroupBy = STATUS | PRIORITY | LABELS | PHASE | OtherGroup string

text \<open>
  The map \<open>{ [p: string]: ITaskGroup }\<close> as an association list in key order, its keys
  distinct. Only own properties are modelled. A property key is a string: \<open>null\<close> is
  looked up as the key \<open>"null"\<close>.
\<close>

type_synonym group_map = "(string \<times> ITaskGroup) list"

fun propKey :: "string option \<Rightarrow> string" where
  "propKey None = ''null''"
| "propKey (Some k) = k"

definition keys :: "group_map \<Rightarrow> string list" where
  "keys m = map fst m"

text \<open>\<open>map[key]?.tasks.push(task)\<close>: nothing happens when the key has no group.\<close>

fun pushTask :: "group_map \<Rightarrow> string \<Rightarrow> task \<Rightarrow> group_map" where
  "pushTask [] k t = []"
| "pushTask ((k', g) # m) k t =
     (if k' = k then (k', g\<lparr>tasks := tasks g @ [t]\<rparr>) # m else (k', g) # pushTask m k t)"

text \<open>\<open>map[key] = group\<close>: an existing key keeps its place, a new key comes last.\<close>

fun assign :: "group_map \<Rightarrow> string \<Rightarrow> ITaskGroup \<Rightarrow> group_map" where
  "assign [] k g = [(k, g)]"
| "assign ((k', g') # m) k g = (if k' = k then (k, g) # m else (k', g') # assign m k g)"

text \<open>
  The loop of \<open>updateMapByGroup\<close>, from the task at display index \<open>i\<close> on. The state is the
  map and the array \<open>unmapped\<close>. \<open>updateTaskViewModel\<close> is a method of the base controller
  and stands as a parameter; it decorates the task before the group key is read.
\<close>

fun walk :: "(task \<Rightarrow> task) \<Rightarrow> GroupBy \<Rightarrow> task list \<Rightarrow> nat
    \<Rightarrow> group_map \<Rightarrow> task list \<Rightarrow> group_map \<times> task list" where
  "walk updateTaskViewModel groupBy [] i m unmapped = (m, unmapped)"
| "walk updateTaskViewModel groupBy (t # ts) i m unmapped =
     (let task = updateTaskViewModel (t\<lparr>index := Some i\<rparr>) in
      if groupBy = STATUS then
        walk updateTaskViewModel groupBy ts (Suc i) (pushTask m (propKey (status task)) task) unmapped
      else if groupBy = PRIORITY then
        walk updateTaskViewModel groupBy ts (Suc i) (pushTask m (propKey (priority task)) task) unmapped
      else if groupBy = PHASE \<and> truthy (phase_id task) then
        walk updateTaskViewModel groupBy ts (Suc i) (pushTask m (propKey (phase_id task)) task) unmapped
      else
        walk updateTaskViewModel groupBy ts (Suc i) m (unmapped @ [task]))"

text \<open>The object literal stored under the key \<open>UNMAPPED\<close>: four properties, the rest undefined.\<close>

definition unmappedGroup :: "string \<Rightarrow> task list \<Rightarrow> ITaskGroup" where
  "unmappedGroup UNMAPPED unmapped =
     \<lparr>name = UNMAPPED, category_id = None, color_code = ''#fbc84c69'', color_code_dark = None,
      start_date = None, end_date = None, todo_progress = None, doing_progress = None,
      done_progress = None, tasks = unmapped\<rparr>"

text \<open>
  \<open>updateMapByGroup\<close>. The constant \<open>UNMAPPED\<close> of \<open>shared/constants\<close> is the first
  argument. The map is mutated in place in the source and returned here.
\<close>

definition updateMapByGroup :: "string \<Rightarrow> (task \<Rightarrow> task) \<Rightarrow> task list \<Rightarrow> GroupBy
    \<Rightarrow> group_map \<Rightarrow> group_map" where
  "updateMapByGroup UNMAPPED updateTaskViewModel tasks0 groupBy m =
     (case walk updateTaskViewModel groupBy tasks0 0 m [] of
        (m', unmapped) \<Rightarrow>
          if unmapped \<noteq> [] then assign m' UNMAPPED (unmappedGroup UNMAPPED unmapped) else m')"

text \<open>The tasks as the walk decorates them: display index and view model.\<close>

fun decorate :: "(task \<Rightarrow> task) \<Rightarrow> nat \<Rightarrow> task list \<Rightarrow> task list" where
  "decorate updateTaskViewModel i [] = []"
| "decorate updateTaskViewModel i (t # ts) =
     updateTaskViewModel (t\<lparr>index := Some i\<rparr>) # decorate updateTaskViewModel (Suc i) ts"

text \<open>
  The key under which the walk looks a decorated task up, \<open>None\<close> when the task goes to
  \<open>unmapped\<close> without a lookup.
\<close>

definition groupKey :: "GroupBy \<Rightarrow> task \<Rightarrow> string option" where
  "groupKey groupBy task =
     (if groupBy = STATUS then Some (propKey (status task))
      else if groupBy = PRIORITY then Some (propKey (priority task))
      else if groupBy = PHASE \<and> truthy (phase_id task) then Some (propKey (phase_id task))
      else None)"

text \<open>A task resolves when its key has a group in the map; it is placed when it resolves
  or goes to \<open>unmapped\<close>, and dropped otherwise.\<close>

definition resolves :: "GroupBy \<Rightarrow> group_map \<Rightarrow> task \<Rightarrow> bool" where
  "resolves groupBy m task =
     (case groupKey groupBy task of None \<Rightarrow> False | Some k \<Rightarrow> k \<in> set (keys m))"

definition placed :: "GroupBy \<Rightarrow> group_map \<Rightarrow> task \<Rightarrow> bool" where
  "placed groupBy m task =
     (case groupKey groupBy task of None \<Rightarrow> True | Some k \<Rightarrow> k \<in> set (keys m))"

definition allTasks :: "group_map \<Rightarrow> task list" where
  "allTasks m = concat (map (\<lambda>(k, g). tasks g) m)"

definition taskCount :: "group_map \<Rightarrow> nat" where
  "taskCount m = sum_list (map (\<lambda>(k, g). length (tasks g)) m)"

section \<open>Progress: \<open>updateTaskProgresses\<close>\<close>

text \<open>
  Modelled from the spec: \<open>calculateTaskCompleteRatio\<close> is a method of the base controller,
  whose file is not part of the sources at hand. The specification gives the ratio as the
  count of matching tasks over the total, as a percentage rounded to the nearest whole
  point, and as 0 for an empty group.
\<close>

definition calculateTaskCompleteRatio :: "nat \<Rightarrow> nat \<Rightarrow> int" where
  "calculateTaskCompleteRatio totalCompleted totalTasks =
     (if totalTasks = 0 then 0
      else int ((200 * totalCompleted + totalTasks) div (2 * totalTasks)))"

text \<open>\<open>t.status_category?.is_todo\<close> and its siblings, as truth values.\<close>

definition flag :: "(status_category \<Rightarrow> bool option) \<Rightarrow> task \<Rightarrow> bool" where
  "flag f t = (case status_category t of None \<Rightarrow> False | Some c \<Rightarrow> f c = Some True)"

definition updateTaskProgresses :: "ITaskGroup \<Rightarrow> ITaskGroup" where
  "updateTaskProgresses grp =
     (let todoCount = length (filter (flag is_todo) (tasks grp));
          doingCount = length (filter (flag is_doing) (tasks grp));
          doneCount = length (filter (flag is_done) (tasks grp));
          total = length (tasks grp)
      in grp\<lparr>todo_progress := Some (calculateTaskCompleteRatio todoCount total),
             doing_progress := Some (calculateTaskCompleteRatio doingCount total),
             done_progress := Some (calculateTaskCompleteRatio doneCount total)\<rparr>)"

section \<open>The task store\<close>

text \<open>
  The tables the queries of the controller read and write, with the columns they name. A
  table is the list of its rows; \<open>id\<close> is the primary key of each table; every other column
  may be \<open>NULL\<close> (\<open>None\<close>). The column \<open>sort_order\<close> has a SQL integer type; its largest
  value is a parameter of the statements that compute with it, since the table definition is
  not among the sources (2147483647 for \<open>INTEGER\<close>).
\<close>

record tasks_row =
  t_id :: string
  t_project_id :: "string option"
  t_parent_task_id :: "string option"
  t_status_id :: "string option"
  t_priority_id :: "string option"
  t_sort_order :: "int option"

record task_statuses_row =
  ts_id :: string
  ts_project_id :: "string option"
  ts_category_id :: "string option"

record sys_task_status_categories_row =
  c_id :: string
  c_is_done :: "bool option"

record task_dependencies_row =
  td_task_id :: "string option"
  td_related_task_id :: "string option"

record store =
  db_tasks :: "tasks_row list"
  task_statuses :: "task_statuses_row list"
  sys_task_status_categories :: "sys_task_status_categories_row list"
  task_dependencies :: "task_dependencies_row list"

text \<open>SQL's three-valued logic: \<open>None\<close> is unknown. A \<open>WHERE\<close> clause keeps a row when its
  condition is \<open>Some True\<close>.\<close>

definition sql_eq :: "'a option \<Rightarrow> 'a option \<Rightarrow> bool option" where
  "sql_eq a b = (case a of None \<Rightarrow> None | Some x \<Rightarrow> (case b of None \<Rightarrow> None | Some y \<Rightarrow> Some (x = y)))"

definition sql_and :: "bool option \<Rightarrow> bool option \<Rightarrow> bool option" where
  "sql_and a b =
     (if a = Some False \<or> b = Some False then Some False
      else if a = Some True \<and> b = Some True then Some True else None)"

definition sql_not :: "bool option \<Rightarrow> bool option" where
  "sql_not a = map_option Not a"

definition sql_in :: "'a option \<Rightarrow> 'a option list \<Rightarrow> bool option" where
  "sql_in a xs =
     (if xs = [] then Some False
      else case a of None \<Rightarrow> None
        | Some x \<Rightarrow> if Some x \<in> set xs then Some True
                    else if None \<in> set xs then None else Some False)"

text \<open>A column of the right-hand row of a \<open>LEFT JOIN\<close>, \<open>NULL\<close> when no row matched.\<close>

definition col :: "('r \<Rightarrow> 'a option) \<Rightarrow> 'r option \<Rightarrow> 'a option" where
  "col f r = (case r of None \<Rightarrow> None | Some x \<Rightarrow> f x)"

section \<open>The dependency gate: \<open>checkForCompletedDependencies\<close>\<close>

text \<open>\<open>(SELECT project_id FROM tasks WHERE id = $1)\<close>: a scalar sub-select on the primary key.\<close>

definition taskProject :: "store \<Rightarrow> string option \<Rightarrow> string option" where
  "taskProject db taskId =
     (case filter (\<lambda>t. sql_eq (Some (t_id t)) taskId = Some True) (db_tasks db) of
        [] \<Rightarrow> None | t # _ \<Rightarrow> t_project_id t)"

text \<open>\<open>SELECT id FROM sys_task_status_categories WHERE is_done IS TRUE\<close> (or \<open>IS FALSE\<close>).\<close>

definition categoryIds :: "store \<Rightarrow> bool \<Rightarrow> string option list" where
  "categoryIds db b =
     map (\<lambda>c. Some (c_id c)) (filter (\<lambda>c. c_is_done c = Some b) (sys_task_status_categories db))"

text \<open>The first \<open>EXISTS\<close>: a row of \<open>task_statuses\<close> with the id \<open>$2\<close>, in the project of the
  task \<open>$1\<close>, whose category is among those with \<open>is_done IS FALSE\<close>.\<close>

definition nextStatusNotDone :: "store \<Rightarrow> string option \<Rightarrow> string option \<Rightarrow> bool" where
  "nextStatusNotDone db taskId nextStatusId =
     list_ex (\<lambda>ts.
        sql_and (sql_and (sql_eq (Some (ts_id ts)) nextStatusId)
                         (sql_eq (ts_project_id ts) (taskProject db taskId)))
                (sql_in (ts_category_id ts) (categoryIds db False)) = Some True)
       (task_statuses db)"

text \<open>\<open>task_dependencies td LEFT JOIN public.tasks t ON t.id = td.related_task_id\<close>.\<close>

definition leftJoinTasks :: "store \<Rightarrow> (task_dependencies_row \<times> tasks_row option) list" where
  "leftJoinTasks db =
     concat (map (\<lambda>td.
        case filter (\<lambda>t. sql_eq (Some (t_id t)) (td_related_task_id td) = Some True) (db_tasks db) of
          [] \<Rightarrow> [(td, None)]
        | r # rs \<Rightarrow> map (\<lambda>t. (td, Some t)) (r # rs))
       (task_dependencies db))"

text \<open>The correlated sub-select: the ids of the statuses of the project \<open>t.project_id\<close> whose
  category is among those with \<open>is_done IS TRUE\<close>.\<close>

definition doneStatusIds :: "store \<Rightarrow> string option \<Rightarrow> string option list" where
  "doneStatusIds db projectId =
     map (\<lambda>ts. Some (ts_id ts))
       (filter (\<lambda>ts.
          sql_and (sql_eq projectId (ts_project_id ts))
                  (sql_in (ts_category_id ts) (categoryIds db True)) = Some True)
        (task_statuses db))"

text \<open>The second \<open>EXISTS\<close>: a dependency of the task \<open>$1\<close> whose related task has a status
  that is \<open>NOT IN\<close> the done statuses of its project.\<close>

definition incompleteDependency :: "store \<Rightarrow> string option \<Rightarrow> bool" where
  "incompleteDependency db taskId =
     list_ex (\<lambda>(td, t).
        sql_and (sql_eq (td_task_id td) taskId)
                (sql_not (sql_in (col t_status_id t) (doneStatusIds db (col t_project_id t))))
          = Some True)
       (leftJoinTasks db)"

text \<open>\<open>checkForCompletedDependencies\<close>: the value of \<open>can_continue\<close> in the one row the
  query returns.\<close>

definition checkForCompletedDependencies :: "store \<Rightarrow> string option \<Rightarrow> string option \<Rightarrow> bool" where
  "checkForCompletedDependencies db taskId nextStatusId =
     (if nextStatusNotDone db taskId nextStatusId then True
      else if incompleteDependency db taskId then False
      else True)"

subsection \<open>The gate in the words of the specification\<close>

text \<open>
  A store is well formed when ids are unique, every category says whether it is done, every
  status has a project and a category, every task has a project and a status of that
  project, and every dependency joins two tasks.
\<close>

definition wf_store :: "store \<Rightarrow> bool" where
  "wf_store db =
     (distinct (map c_id (sys_task_status_categories db))
      \<and> distinct (map ts_id (task_statuses db))
      \<and> distinct (map t_id (db_tasks db))
      \<and> list_all (\<lambda>c. c_is_done c \<noteq> None) (sys_task_status_categories db)
      \<and> list_all (\<lambda>ts. ts_project_id ts \<noteq> None
            \<and> list_ex (\<lambda>c. ts_category_id ts = Some (c_id c)) (sys_task_status_categories db))
          (task_statuses db)
      \<and> list_all (\<lambda>t. t_project_id t \<noteq> None
            \<and> list_ex (\<lambda>ts. t_status_id t = Some (ts_id ts) \<and> ts_project_id ts = t_project_id t)
                 (task_statuses db))
          (db_tasks db)
      \<and> list_all (\<lambda>td. list_ex (\<lambda>t. td_task_id td = Some (t_id t)) (db_tasks db)
            \<and> list_ex (\<lambda>t. td_related_task_id td = Some (t_id t)) (db_tasks db))
          (task_dependencies db))"

text \<open>A status whose category is done.\<close>

definition statusIsDone :: "store \<Rightarrow> string option \<Rightarrow> bool" where
  "statusIsDone db statusId =
     list_ex (\<lambda>ts. Some (ts_id ts) = statusId
        \<and> list_ex (\<lambda>c. Some (c_id c) = ts_category_id ts \<and> c_is_done c = Some True)
            (sys_task_status_categories db))
       (task_statuses db)"

text \<open>The status is one of the statuses of the project of the task.\<close>

definition statusOfTaskProject :: "store \<Rightarrow> string option \<Rightarrow> string option \<Rightarrow> bool" where
  "statusOfTaskProject db taskId statusId =
     list_ex (\<lambda>ts. Some (ts_id ts) = statusId \<and> taskProject db taskId \<noteq> None
        \<and> ts_project_id ts = taskProject db taskId)
       (task_statuses db)"

text \<open>The tasks the task depends on directly.\<close>

definition dependencyRows :: "store \<Rightarrow> string option \<Rightarrow> task_dependencies_row list" where
  "dependencyRows db taskId =
     filter (\<lambda>td. taskId \<noteq> None \<and> td_task_id td = taskId) (task_dependencies db)"

definition directDependencies :: "store \<Rightarrow> string option \<Rightarrow> tasks_row list" where
  "directDependencies db taskId =
     concat (map (\<lambda>td. filter (\<lambda>t. Some (t_id t) = td_related_task_id td) (db_tasks db))
       (dependencyRows db taskId))"

text \<open>The decision as the claim words it: allowed whenever the target is not a done status
  of the project of the task, else allowed exactly when every direct dependency is done.\<close>

definition claimedCanTransition :: "store \<Rightarrow> string option \<Rightarrow> string option \<Rightarrow> bool" where
  "claimedCanTransition db taskId targetStatusId =
     (if \<not> (statusOfTaskProject db taskId targetStatusId \<and> statusIsDone db targetStatusId)
      then True
      else list_all (\<lambda>t. statusIsDone db (t_status_id t)) (directDependencies db taskId))"

text \<open>The status is a status of the project of the task, and its category is marked not
  done.\<close>

definition openStatusOfTaskProject :: "store \<Rightarrow> string option \<Rightarrow> string option \<Rightarrow> bool" where
  "openStatusOfTaskProject db taskId statusId =
     list_ex (\<lambda>ts. Some (ts_id ts) = statusId \<and> taskProject db taskId \<noteq> None
        \<and> ts_project_id ts = taskProject db taskId
        \<and> list_ex (\<lambda>c. Some (c_id c) = ts_category_id ts \<and> c_is_done c = Some False)
            (sys_task_status_categories db))
       (task_statuses db)"

text \<open>The status is a status of the given project, and its category is marked done.\<close>

definition doneStatusOfProject :: "store \<Rightarrow> string option \<Rightarrow> string option \<Rightarrow> bool" where
  "doneStatusOfProject db projectId statusId =
     list_ex (\<lambda>ts. Some (ts_id ts) = statusId \<and> projectId \<noteq> None
        \<and> ts_project_id ts = projectId
        \<and> list_ex (\<lambda>c. Some (c_id c) = ts_category_id ts \<and> c_is_done c = Some True)
            (sys_task_status_categories db))
       (task_statuses db)"

text \<open>Every dependency row of the task names a task of the store, and each of these tasks
  has a status.\<close>

definition dependenciesPresent :: "store \<Rightarrow> string option \<Rightarrow> bool" where
  "dependenciesPresent db taskId =
     (list_all (\<lambda>td. list_ex (\<lambda>t. Some (t_id t) = td_related_task_id td) (db_tasks db))
        (dependencyRows db taskId)
      \<and> list_all (\<lambda>t. t_status_id t \<noteq> None) (directDependencies db taskId))"

text \<open>The decision as amended: allowed whenever the target is a status of the project of the
  task that is marked not done, else allowed exactly when every direct dependency has a done
  status of its own project.\<close>

definition canTransition :: "store \<Rightarrow> string option \<Rightarrow> string option \<Rightarrow> bool" where
  "canTransition db taskId targetStatusId =
     (if openStatusOfTaskProject db taskId targetStatusId then True
      else list_all (\<lambda>t. doneStatusOfProject db (t_project_id t) (t_status_id t))
             (directDependencies db taskId))"

section \<open>Reparenting: \<open>convertToTask\<close> and \<open>convertToSubtask\<close>\<close>

text \<open>The texts of the statements.\<close>

definition statusUpdateText :: string where
  "statusUpdateText = concat
    [''\<newline>'',
     ''        UPDATE tasks\<newline>'',
     ''        SET parent_task_id = $3,\<newline>'',
     ''            sort_order     = COALESCE((SELECT MAX(sort_order) + 1 FROM tasks WHERE project_id = $2), 0),\<newline>'',
     ''            status_id      = $4\<newline>'',
     ''        WHERE id = $1;\<newline>'',
     ''      '']"

definition priorityUpdateText :: string where
  "priorityUpdateText = concat
    [''\<newline>'',
     ''        UPDATE tasks\<newline>'',
     ''        SET parent_task_id = $3,\<newline>'',
     ''            sort_order     = COALESCE((SELECT MAX(sort_order) + 1 FROM tasks WHERE project_id = $2), 0),\<newline>'',
     ''            priority_id    = $4\<newline>'',
     ''        WHERE id = $1;\<newline>'',
     ''      '']"

definition phaseUpdateText :: string where
  "phaseUpdateText = concat
    [''\<newline>'',
     ''        UPDATE tasks\<newline>'',
     ''        SET parent_task_id = $3,\<newline>'',
     ''            sort_order     = COALESCE((SELECT MAX(sort_order) + 1 FROM tasks WHERE project_id = $2), 0)\<newline>'',
     ''        WHERE id = $1;\<newline>'',
     ''      '']"

definition convertToTaskText :: string where
  "convertToTaskText = concat
    [''\<newline>'',
     ''      UPDATE tasks\<newline>'',
     ''      SET parent_task_id = NULL,\<newline>'',
     ''          sort_order     = COALESCE((SELECT MAX(sort_order) + 1 FROM tasks WHERE project_id = $2), 0)\<newline>'',
     ''      WHERE id = $1;\<newline>'',
     ''    '']"

text \<open>\<open>(SELECT MAX(sort_order) + 1 FROM tasks WHERE project_id = $2)\<close>: \<open>NULL\<close> when no row of
  the project has a sort order.\<close>

definition inProject :: "string option \<Rightarrow> tasks_row \<Rightarrow> bool" where
  "inProject projectId t = (sql_eq (t_project_id t) projectId = Some True)"

definition sortOrders :: "store \<Rightarrow> string option \<Rightarrow> int list" where
  "sortOrders db projectId =
     concat (map (\<lambda>t. case t_sort_order t of None \<Rightarrow> [] | Some s \<Rightarrow> [s])
       (filter (inProject projectId) (db_tasks db)))"

text \<open>An arithmetic result beyond the integer type raises \<open>integer out of range\<close>; the
  statement is then aborted and writes nothing.\<close>

datatype sql_error = IntegerOutOfRange | StatementRejected

definition maxSortOrderPlus1 :: "int \<Rightarrow> store \<Rightarrow> string option \<Rightarrow> sql_error + int option" where
  "maxSortOrderPlus1 intMax db projectId =
     (case sortOrders db projectId of
        [] \<Rightarrow> Inr None
      | x # xs \<Rightarrow>
          if fold max xs x + 1 > intMax then Inl IntegerOutOfRange
          else Inr (Some (fold max xs x + 1)))"

definition coalesce :: "'a option \<Rightarrow> 'a \<Rightarrow> 'a" where
  "coalesce a d = (case a of None \<Rightarrow> d | Some x \<Rightarrow> x)"

text \<open>\<open>UPDATE tasks SET ... WHERE id = $1\<close>: the rows with that id are replaced.\<close>

definition updateTasks :: "store \<Rightarrow> string option \<Rightarrow> (tasks_row \<Rightarrow> tasks_row) \<Rightarrow> store" where
  "updateTasks db taskId f =
     db\<lparr>db_tasks := map (\<lambda>t. if sql_eq (Some (t_id t)) taskId = Some True then f t else t)
                       (db_tasks db)\<rparr>"

text \<open>
  An \<open>UPDATE\<close> whose \<open>SET\<close> list computes \<open>COALESCE((SELECT MAX(sort_order) + 1 ...), 0)\<close>.
  The sub-select is evaluated when a row is to be written: with no row of that id nothing
  happens, and an error leaves the store as it was.
\<close>

definition updateWithSortOrder :: "int \<Rightarrow> store \<Rightarrow> string option \<Rightarrow> string option
    \<Rightarrow> (int \<Rightarrow> tasks_row \<Rightarrow> tasks_row) \<Rightarrow> sql_error + store" where
  "updateWithSortOrder intMax db taskId projectId f =
     (if list_ex (\<lambda>t. sql_eq (Some (t_id t)) taskId = Some True) (db_tasks db) then
        (case maxSortOrderPlus1 intMax db projectId of
           Inl e \<Rightarrow> Inl e
         | Inr n \<Rightarrow> Inr (updateTasks db taskId (f (coalesce n 0))))
      else Inr db)"

text \<open>The fields of \<open>req.body\<close> that the two handlers read.\<close>

record body =
  b_id :: "string option"
  b_project_id :: "string option"
  b_parent_task_id :: "string option"
  to_group_id :: "string option"
  group_by :: "string option"

text \<open>
  \<open>convertToTask\<close>: the statement sent to the store with its parameters, and the outcome:
  the store after it, or the error that the handler passes on. The response is built from
  \<open>get_single_task\<close>, a function of the database.
\<close>

definition convertToTaskQuery :: "body \<Rightarrow> string \<times> string option list" where
  "convertToTaskQuery b = (convertToTaskText, [b_id b, b_project_id b])"

definition convertToTask :: "int \<Rightarrow> store \<Rightarrow> body \<Rightarrow> sql_error + store" where
  "convertToTask intMax db b =
     updateWithSortOrder intMax db (b_id b) (b_project_id b)
       (\<lambda>n t. t\<lparr>t_parent_task_id := None, t_sort_order := Some n\<rparr>)"

text \<open>
  What the reparenting is to achieve on the row at position \<open>i\<close>: same id, no parent, the
  sort order \<open>n\<close>, and every row with another id as before.
\<close>

definition reparentedAt :: "store \<Rightarrow> store \<Rightarrow> body \<Rightarrow> nat \<Rightarrow> int \<Rightarrow> bool" where
  "reparentedAt db db' b i n =
     (length (db_tasks db') = length (db_tasks db)
      \<and> t_id (db_tasks db' ! i) = t_id (db_tasks db ! i)
      \<and> t_parent_task_id (db_tasks db' ! i) = None
      \<and> t_sort_order (db_tasks db' ! i) = Some n
      \<and> (\<forall>j < length (db_tasks db). Some (t_id (db_tasks db ! j)) \<noteq> b_id b \<longrightarrow>
            db_tasks db' ! j = db_tasks db ! j))"

text \<open>
  \<open>convertToSubtask\<close>: the calls of \<open>db.query\<close> in the order the handler issues them, each
  with its text and parameters, when no statement raises. For a \<open>group_by\<close> other than
  \<open>status\<close>, \<open>priority\<close> and \<open>phase\<close> the text \<open>q\<close> stays empty: the store rejects an empty
  statement that comes with parameters, so that call is the last one.
  \<open>UNMAPPED\<close> is the constant of \<open>shared/constants\<close>.
\<close>

definition toGroupId :: "string \<Rightarrow> body \<Rightarrow> string option" where
  "toGroupId UNMAPPED b = (if to_group_id b = Some UNMAPPED then None else to_group_id b)"

definition convertToSubtask :: "string \<Rightarrow> body \<Rightarrow> (string \<times> string option list) list" where
  "convertToSubtask UNMAPPED b =
     (let groupType = group_by b;
          (early, q) =
            (if groupType = Some ''status'' then ([], statusUpdateText)
             else if groupType = Some ''priority'' then ([], priorityUpdateText)
             else if groupType = Some ''phase'' then
               ([(phaseUpdateText, [b_id b, b_project_id b, b_parent_task_id b])],
                ''SELECT handle_on_task_phase_change($1, $2);'')
             else ([], []));
          params = (if groupType = Some ''phase'' then [b_id b, toGroupId UNMAPPED b]
                    else [b_id b, b_project_id b, b_parent_task_id b, toGroupId UNMAPPED b])
      in if q = [] then early @ [(q, params)]
         else early @ [(q, params), (''SELECT get_single_task($1) AS task;'', [b_id b])])"

text \<open>The outcome of the \<open>UPDATE\<close> of \<open>convertToSubtask\<close>: the store after it, or the error.
  What \<open>handle_on_task_phase_change\<close> does is defined in the database and not modelled.\<close>

definition convertToSubtaskStore :: "int \<Rightarrow> string \<Rightarrow> store \<Rightarrow> body \<Rightarrow> sql_error + store" where
  "convertToSubtaskStore intMax UNMAPPED db b =
     (if group_by b = Some ''status'' then
        updateWithSortOrder intMax db (b_id b) (b_project_id b)
          (\<lambda>n t. t\<lparr>t_parent_task_id := b_parent_task_id b, t_sort_order := Some n,
                   t_status_id := toGroupId UNMAPPED b\<rparr>)
      else if group_by b = Some ''priority'' then
        updateWithSortOrder intMax db (b_id b) (b_project_id b)
          (\<lambda>n t. t\<lparr>t_parent_task_id := b_parent_task_id b, t_sort_order := Some n,
                   t_priority_id := toGroupId UNMAPPED b\<rparr>)
      else if group_by b = Some ''phase'' then
        updateWithSortOrder intMax db (b_id b) (b_project_id b)
          (\<lambda>n t. t\<lparr>t_parent_task_id := b_parent_task_id b, t_sort_order := Some n\<rparr>)
      else Inl StatementRejected)"

section \<open>Label assignment: \<open>assignLabelsToTask\<close>\<close>

text \<open>
  What the handler does in the order it does it, up to the moment it sends the response.
  \<open>labels.forEach\<close> calls the asynchronous callback for each label; each call runs until
  its \<open>await\<close>, that is, it hands the query to \<open>db.query\<close> and returns a pending promise,
  which \<open>forEach\<close> discards. No continuation of a callback runs before the handler has
  sent the response, since the handler does not await anything in between.
\<close>

datatype io_event =
  QueryIssued string "string option list"
  | QueryAwaited string "string option list"
  | ResponseSent nat bool string

definition assignLabelsToTask :: "string option \<Rightarrow> string list \<Rightarrow> io_event list" where
  "assignLabelsToTask taskId labels0 =
     map (\<lambda>label. QueryIssued ''SELECT add_or_remove_task_label($1, $2) AS labels;''
                     [taskId, Some label]) labels0
     @ [ResponseSent 200 True ''Labels assigned successfully'']"

text \<open>The order the claim describes: each write awaited before the next one is issued.\<close>

definition assignLabelsSequentially :: "string option \<Rightarrow> string list \<Rightarrow> io_event list" where
  "assignLabelsSequentially taskId labels0 =
     concat (map (\<lambda>label.
        [QueryIssued ''SELECT add_or_remove_task_label($1, $2) AS labels;'' [taskId, Some label],
         QueryAwaited ''SELECT add_or_remove_task_label($1, $2) AS labels;'' [taskId, Some label] ])
       labels0)
     @ [ResponseSent 200 True ''Labels assigned successfully'']"

section \<open>Sample requests and data\<close>

definition request_defaults :: options where
  "request_defaults =
     \<lparr>search = None, parent_task = None, statuses = None, labels = Some [], members = None,
      projects = None, priorities = Some [], filterBy = None, customColumns = Some ''true'',
      archived = None, isSubtasksInclude = None\<rparr>"

definition subtask_request :: options where
  "subtask_request = request_defaults\<lparr>parent_task := Some ''t1''\<rparr>"

definition archived_request :: options where
  "archived_request = request_defaults\<lparr>archived := Some ''true''\<rparr>"

definition injected_request :: options where
  "injected_request = request_defaults\<lparr>statuses := Some ''x')OR('1'='1''\<rparr>"

text \<open>A group as the constructor of \<open>TaskListGroup\<close> leaves it: no tasks, progress 0.\<close>

definition shell :: "string \<Rightarrow> ITaskGroup" where
  "shell n =
     \<lparr>name = n, category_id = None, color_code = ''#a9a9a969'', color_code_dark = Some ''#a9a9a9'',
      start_date = None, end_date = None, todo_progress = Some 0, doing_progress = Some 0,
      done_progress = Some 0, tasks = []\<rparr>"

definition row :: "string \<Rightarrow> string \<Rightarrow> string option \<Rightarrow> status_category \<Rightarrow> task" where
  "row i s p c =
     \<lparr>task_id = i, status = Some s, priority = Some ''medium'', phase_id = p, index = None,
      status_category = Some c\<rparr>"

definition cat_todo :: status_category where
  "cat_todo = \<lparr>is_todo = Some True, is_doing = Some False, is_done = Some False\<rparr>"

definition cat_doing :: status_category where
  "cat_doing = \<lparr>is_todo = Some False, is_doing = Some True, is_done = Some False\<rparr>"

definition cat_done :: status_category where
  "cat_done = \<lparr>is_todo = Some False, is_doing = Some False, is_done = Some True\<rparr>"

definition status_shells :: group_map where
  "status_shells = [(''s-todo'', shell ''Todo''), (''s-doing'', shell ''Doing''), (''s-done'', shell ''Done'')]"

definition phase_shells :: group_map where
  "phase_shells = [(''ph-1'', shell ''Design'')]"

definition four_tasks :: "task list" where
  "four_tasks =
     [row ''A'' ''s-todo'' None cat_todo, row ''B'' ''s-doing'' (Some ''ph-1'') cat_doing,
      row ''C'' ''s-done'' None cat_done, row ''D'' ''s-done'' (Some ''ph-1'') cat_done]"

definition stray_task :: task where
  "stray_task = row ''E'' ''s-gone'' (Some ''ph-gone'') cat_todo"

definition cat_rows :: "sys_task_status_categories_row list" where
  "cat_rows =
     [\<lparr>c_id = ''c-todo'', c_is_done = Some False\<rparr>, \<lparr>c_id = ''c-done'', c_is_done = Some True\<rparr>]"

definition status_rows :: "task_statuses_row list" where
  "status_rows =
     [\<lparr>ts_id = ''s1-todo'', ts_project_id = Some ''p1'', ts_category_id = Some ''c-todo''\<rparr>,
      \<lparr>ts_id = ''s1-done'', ts_project_id = Some ''p1'', ts_category_id = Some ''c-done''\<rparr>,
      \<lparr>ts_id = ''s2-todo'', ts_project_id = Some ''p2'', ts_category_id = Some ''c-todo''\<rparr>]"

definition task_row :: "string \<Rightarrow> string \<Rightarrow> string option \<Rightarrow> string \<Rightarrow> int \<Rightarrow> tasks_row" where
  "task_row i p parent s n =
     \<lparr>t_id = i, t_project_id = Some p, t_parent_task_id = parent, t_status_id = Some s,
      t_priority_id = Some ''medium'', t_sort_order = Some n\<rparr>"

definition sample_store :: store where
  "sample_store =
     \<lparr>db_tasks =
        [task_row ''t1'' ''p1'' None ''s1-todo'' 0,
         task_row ''t2'' ''p1'' None ''s1-todo'' 4,
         task_row ''t3'' ''p1'' (Some ''t2'') ''s1-done'' 2,
         task_row ''t4'' ''p1'' None ''s1-done'' 1],
      task_statuses = status_rows,
      sys_task_status_categories = cat_rows,
      task_dependencies =
        [\<lparr>td_task_id = Some ''t1'', td_related_task_id = Some ''t2''\<rparr>,
         \<lparr>td_task_id = Some ''t4'', td_related_task_id = Some ''t3''\<rparr>]\<rparr>"

definition to_unmapped :: "string \<Rightarrow> body" where
  "to_unmapped g =
     \<lparr>b_id = Some ''t3'', b_project_id = Some ''p1'', b_parent_task_id = Some ''t1'',
      to_group_id = Some ''unmapped'', group_by = Some g\<rparr>"

text \<open>The largest \<open>INTEGER\<close>, and a store in which a task of project \<open>p1\<close> has it as its
  sort order.\<close>

definition int4_max :: int where
  "int4_max = 2147483647"

definition full_store :: store where
  "full_store =
     sample_store\<lparr>db_tasks :=
        [task_row ''t1'' ''p1'' None ''s1-todo'' 0,
         task_row ''t2'' ''p1'' None ''s1-todo'' 2147483647,
         task_row ''t3'' ''p1'' (Some ''t2'') ''s1-done'' 2,
         task_row ''t4'' ''p1'' None ''s1-done'' 1]\<rparr>"

text \<open>A store in which the task \<open>t3\<close> of project \<open>p1\<close> carries a done status of project
  \<open>p2\<close>.\<close>

definition cross_store :: store where
  "cross_store =
     sample_store\<lparr>db_tasks :=
        [task_row ''t1'' ''p1'' None ''s1-todo'' 0,
         task_row ''t2'' ''p1'' None ''s1-todo'' 4,
         task_row ''t3'' ''p1'' (Some ''t2'') ''s2-done'' 2,
         task_row ''t4'' ''p1'' None ''s1-done'' 1],
       task_statuses := status_rows @
        [\<lparr>ts_id = ''s2-done'', ts_project_id = Some ''p2'', ts_category_id = Some ''c-done''\<rparr>]\<rparr>"

text \<open>A stand-in for \<open>toPaginationOptions\<close> without search text and sort field.\<close>

definition no_pagination :: "options \<Rightarrow> string \<Rightarrow> pagination" where
  "no_pagination opts searchField = \<lparr>searchQuery = [], sortField = []\<rparr>"

section \<open>Helper lemmas\<close>

lemmas closure_defs = getFilterByStatusWhereClosure_def getFilterByPriorityWhereClosure_def
  getFilterByLabelsWhereClosure_def getFilterByMembersWhereClosure_def
  getFilterByProjectsWhereClosure_def

lemmas entry_defs = subTasksFilter_def archivedEntry_def assigneeEntry_def archivedFilter_def
  getFilterByAssignee_def

lemmas sample_defs = shell_def row_def cat_todo_def cat_doing_def cat_done_def status_shells_def
  phase_shells_def four_tasks_def stray_task_def

lemma keys_pushTask [simp]: "keys (pushTask m k t) = keys m"
  by (induction m) (auto simp: keys_def)

lemma allTasks_pushTask:
  "mset (allTasks (pushTask m k t)) =
     mset (allTasks m) + (if k \<in> set (keys m) then {#t#} else {#})"
proof (induction m)
  case Nil
  then show ?case by (simp add: allTasks_def keys_def)
next
  case (Cons e m)
  obtain k' g where e: "e = (k', g)" by (cases e)
  have c: "allTasks (x # y) = tasks (snd x) @ allTasks y" for x y
    by (simp add: allTasks_def split: prod.splits)
  have k: "keys (x # y) = fst x # keys y" for x y
    by (simp add: keys_def)
  show ?case using Cons by (simp add: e c k)
qed

lemma walk_Cons:
  "walk vm gb (t # ts) i m un =
     (case groupKey gb (vm (t\<lparr>index := Some i\<rparr>)) of
        Some k \<Rightarrow> walk vm gb ts (Suc i) (pushTask m k (vm (t\<lparr>index := Some i\<rparr>))) un
      | None \<Rightarrow> walk vm gb ts (Suc i) m (un @ [vm (t\<lparr>index := Some i\<rparr>)]))"
  by (simp add: groupKey_def Let_def)

lemma walk_unmapped:
  "snd (walk vm gb ts i m un) = un @ filter (\<lambda>t. groupKey gb t = None) (decorate vm i ts)"
  by (induction ts arbitrary: i m un) (auto simp: groupKey_def Let_def)

lemma walk_keys: "keys (fst (walk vm gb ts i m un)) = keys m"
  by (induction ts arbitrary: i m un) (auto simp: Let_def)

lemma resolves_pushTask [simp]: "resolves gb (pushTask m k x) = resolves gb m"
  by (rule ext) (simp add: resolves_def split: option.splits)

lemma walk_allTasks:
  "mset (allTasks (fst (walk vm gb ts i m un))) =
     mset (allTasks m) + mset (filter (resolves gb m) (decorate vm i ts))"
proof (induction ts arbitrary: i m un)
  case Nil
  then show ?case by simp
next
  case (Cons t ts)
  let ?task = "vm (t\<lparr>index := Some i\<rparr>)"
  show ?case
  proof (cases "groupKey gb ?task")
    case None
    then have "\<not> resolves gb m ?task" by (simp add: resolves_def)
    then show ?thesis
      using Cons [of "Suc i" m "un @ [?task]"] None by (simp add: walk_Cons del: walk.simps)
  next
    case (Some k)
    then have r: "resolves gb m ?task = (k \<in> set (keys m))" by (simp add: resolves_def)
    show ?thesis
      using Cons [of "Suc i" "pushTask m k ?task" un] Some
      by (simp add: walk_Cons r allTasks_pushTask del: walk.simps)
  qed
qed

lemma allTasks_assign_fresh:
  "k \<notin> set (keys m) \<Longrightarrow> allTasks (assign m k g) = allTasks m @ tasks g"
  by (induction m) (auto simp: allTasks_def keys_def)

lemma set_assign_fresh:
  "k \<notin> set (keys m) \<Longrightarrow> assign m k g = m @ [(k, g)]"
  by (induction m) (auto simp: keys_def)

lemma taskCount_allTasks: "taskCount m = size (mset (allTasks m))"
  by (induction m) (auto simp: taskCount_def allTasks_def)

lemma placed_split:
  "mset (filter (placed gb m) xs) =
     mset (filter (resolves gb m) xs) + mset (filter (\<lambda>t. groupKey gb t = None) xs)"
  by (induction xs) (auto simp: placed_def resolves_def split: option.splits)

lemma length_decorate [simp]: "length (decorate vm i ts) = length ts"
  by (induction ts arbitrary: i) auto

text \<open>The caller's id and the search string are part of the query text, whatever they are.\<close>

lemma getQuery_userId_in_text:
  "\<exists>pre post. getQuery toPaginationOptions userId opts = pre @ userId @ post"
  unfolding getQuery_def Let_def by (metis append.assoc)

lemma getTasksByName_searchString_in_text:
  "\<exists>pre post. fst (getTasksByName searchString projectId taskId) = pre @ searchString @ post"
  unfolding getTasksByName_def fst_conv by (metis append.assoc)

section \<open>Verified properties\<close>

text \<open>
  C3. When a multi-value filter (statuses, priorities, labels, members, projects) is empty
  or unset, the fragments joined into the \<open>WHERE\<close> clause are exactly those of the other
  entries: the filter contributes no fragment at all. When all five are empty or unset,
  the clause consists of the sub-task, archived and assignee entries only.
\<close>

theorem getQuery_omits_empty_filter:
  "(\<not> truthy (statuses opts) \<longrightarrow>
      filterFragments opts = filter (\<lambda>i. i \<noteq> [])
        [subTasksFilter opts, archivedEntry opts, assigneeEntry opts,
         getFilterByPriorityWhereClosure (priorities opts),
         getFilterByLabelsWhereClosure (labels opts),
         getFilterByMembersWhereClosure (members opts),
         getFilterByProjectsWhereClosure (projects opts)])
   \<and> (\<not> truthy (priorities opts) \<longrightarrow>
      filterFragments opts = filter (\<lambda>i. i \<noteq> [])
        [subTasksFilter opts, archivedEntry opts, assigneeEntry opts,
         getFilterByStatusWhereClosure (statuses opts),
         getFilterByLabelsWhereClosure (labels opts),
         getFilterByMembersWhereClosure (members opts),
         getFilterByProjectsWhereClosure (projects opts)])
   \<and> (\<not> truthy (labels opts) \<longrightarrow>
      filterFragments opts = filter (\<lambda>i. i \<noteq> [])
        [subTasksFilter opts, archivedEntry opts, assigneeEntry opts,
         getFilterByStatusWhereClosure (statuses opts),
         getFilterByPriorityWhereClosure (priorities opts),
         getFilterByMembersWhereClosure (members opts),
         getFilterByProjectsWhereClosure (projects opts)])
   \<and> (\<not> truthy (members opts) \<longrightarrow>
      filterFragments opts = filter (\<lambda>i. i \<noteq> [])
        [subTasksFilter opts, archivedEntry opts, assigneeEntry opts,
         getFilterByStatusWhereClosure (statuses opts),
         getFilterByPriorityWhereClosure (priorities opts),
         getFilterByLabelsWhereClosure (labels opts),
         getFilterByProjectsWhereClosure (projects opts)])
   \<and> (\<not> truthy (projects opts) \<longrightarrow>
      filterFragments opts = filter (\<lambda>i. i \<noteq> [])
        [subTasksFilter opts, archivedEntry opts, assigneeEntry opts,
         getFilterByStatusWhereClosure (statuses opts),
         getFilterByPriorityWhereClosure (priorities opts),
         getFilterByLabelsWhereClosure (labels opts),
         getFilterByMembersWhereClosure (members opts)])
   \<and> (\<not> truthy (statuses opts) \<and> \<not> truthy (priorities opts) \<and> \<not> truthy (labels opts)
        \<and> \<not> truthy (members opts) \<and> \<not> truthy (projects opts) \<longrightarrow>
      filters opts = join '' AND '' (filter (\<lambda>i. i \<noteq> [])
        [subTasksFilter opts, archivedEntry opts, assigneeEntry opts]))"
  by (simp add: filterFragments_def filters_def closure_defs)

theorem getQuery_omits_empty_filter_witness:
  "\<not> truthy (statuses request_defaults) \<and> \<not> truthy (priorities request_defaults)
   \<and> \<not> truthy (labels request_defaults) \<and> \<not> truthy (members request_defaults)
   \<and> \<not> truthy (projects request_defaults)
   \<and> filters request_defaults =
       ''parent_task_id IS NULL AND archived IS FALSE AND project_id = $1''"
  using getQuery_omits_empty_filter [of request_defaults]
  by (simp add: request_defaults_def entry_defs isSubTasks_def)

text \<open>
  C4 (evaluation of the code). \<open>getTasksByName\<close> writes the search string into the query
  text between the quotes of the \<open>ILIKE\<close> pattern and binds only the project and the task
  id; \<open>getQuery\<close> writes the status ids into the \<open>IN\<close> list. A value with a quote in it
  ends the SQL literal and continues as SQL.
\<close>

theorem query_text_interpolates_input:
  "getTasksByName ''x' OR 1=1 --'' ''p1'' ''t1'' =
     (''SELECT id AS value ,\<newline>       name AS label,\<newline>''
      @ ''       CONCAT((SELECT key FROM projects WHERE id = t.project_id), '-', task_no) AS task_key\<newline>''
      @ ''      FROM tasks t\<newline>''
      @ ''      WHERE t.name ILIKE '%x' OR 1=1 --%'\<newline>''
      @ ''        AND t.project_id = $1 AND t.id != $2\<newline>''
      @ ''      LIMIT 15;'',
      [''p1'', ''t1''])
   \<and> filters injected_request =
       ''parent_task_id IS NULL AND archived IS FALSE AND project_id = $1 AND status_id IN ('x')OR('1'='1')''"
  by (simp add: getTasksByName_def injected_request_def request_defaults_def filters_def
        filterFragments_def closure_defs entry_defs isSubTasks_def flatString_def)

text \<open>
  C5 (amended). The text \<open>getQuery\<close> builds has, after \<open>WHERE\<close>, the fragments joined by
  \<open>AND\<close>, and the archived entry is always one of them, right after the sub-task fragment.
  For a request that is not a sub-task request (no \<open>parent_task\<close>) that fragment is
  \<open>archived IS FALSE\<close> unless the option \<open>archived\<close> is \<open>"true"\<close>, and then it is
  \<open>archived IS TRUE\<close>; the clause never has both. For a sub-task request the fragment is
  \<open>1 = 1\<close> and the clause has neither.
\<close>

theorem getQuery_archived_fragment:
  "getQuery toPaginationOptions userId opts =
     select_head @ userId @ select_tail
     @ customColumnsQuery opts @ '' '' @ getStatusesQuery (filterBy opts)
     @ ''\<newline>      FROM tasks t\<newline>      WHERE ''
     @ join '' AND ''
         (filter (\<lambda>i. i \<noteq> []) [subTasksFilter opts]
          @ [archivedEntry opts]
          @ filter (\<lambda>i. i \<noteq> [])
              [assigneeEntry opts,
               getFilterByStatusWhereClosure (statuses opts),
               getFilterByPriorityWhereClosure (priorities opts),
               getFilterByLabelsWhereClosure (labels opts),
               getFilterByMembersWhereClosure (members opts),
               getFilterByProjectsWhereClosure (projects opts)])
     @ '' ''
     @ searchQuery (toPaginationOptions opts
         (if truthy (search opts) then ''t.name'' else ''sort_order''))
     @ ''\<newline>      ORDER BY ''
     @ sortFields (sortField (toPaginationOptions opts
         (if truthy (search opts) then ''t.name'' else ''sort_order'')))
     @ ''\<newline>    ''
   \<and> (\<not> isSubTasks opts \<and> archived opts = Some ''true'' \<longrightarrow>
      archivedEntry opts = ''archived IS TRUE''
      \<and> ''archived IS TRUE'' \<in> set (filterFragments opts)
      \<and> ''archived IS FALSE'' \<notin> set (filterFragments opts))
   \<and> (\<not> isSubTasks opts \<and> archived opts \<noteq> Some ''true'' \<longrightarrow>
      archivedEntry opts = ''archived IS FALSE''
      \<and> ''archived IS FALSE'' \<in> set (filterFragments opts)
      \<and> ''archived IS TRUE'' \<notin> set (filterFragments opts))
   \<and> (isSubTasks opts \<longrightarrow>
      archivedEntry opts = ''1 = 1''
      \<and> ''1 = 1'' \<in> set (filterFragments opts)
      \<and> ''archived IS FALSE'' \<notin> set (filterFragments opts)
      \<and> ''archived IS TRUE'' \<notin> set (filterFragments opts))"
proof -
  have ne: "archivedEntry opts \<noteq> []"
    by (simp add: archivedEntry_def archivedFilter_def)
  have ff: "filterFragments opts =
      filter (\<lambda>i. i \<noteq> []) [subTasksFilter opts]
      @ [archivedEntry opts]
      @ filter (\<lambda>i. i \<noteq> [])
          [assigneeEntry opts,
           getFilterByStatusWhereClosure (statuses opts),
           getFilterByPriorityWhereClosure (priorities opts),
           getFilterByLabelsWhereClosure (labels opts),
           getFilterByMembersWhereClosure (members opts),
           getFilterByProjectsWhereClosure (projects opts)]"
    using ne by (simp add: filterFragments_def)
  have q: "getQuery toPaginationOptions userId opts =
     select_head @ userId @ select_tail
     @ customColumnsQuery opts @ '' '' @ getStatusesQuery (filterBy opts)
     @ ''\<newline>      FROM tasks t\<newline>      WHERE ''
     @ join '' AND '' (filterFragments opts)
     @ '' ''
     @ searchQuery (toPaginationOptions opts
         (if truthy (search opts) then ''t.name'' else ''sort_order''))
     @ ''\<newline>      ORDER BY ''
     @ sortFields (sortField (toPaginationOptions opts
         (if truthy (search opts) then ''t.name'' else ''sort_order'')))
     @ ''\<newline>    ''"
    by (simp only: getQuery_def Let_def filters_def)
  have m: "(\<not> isSubTasks opts \<and> archived opts = Some ''true'' \<longrightarrow>
      archivedEntry opts = ''archived IS TRUE''
      \<and> ''archived IS TRUE'' \<in> set (filterFragments opts)
      \<and> ''archived IS FALSE'' \<notin> set (filterFragments opts))
   \<and> (\<not> isSubTasks opts \<and> archived opts \<noteq> Some ''true'' \<longrightarrow>
      archivedEntry opts = ''archived IS FALSE''
      \<and> ''archived IS FALSE'' \<in> set (filterFragments opts)
      \<and> ''archived IS TRUE'' \<notin> set (filterFragments opts))
   \<and> (isSubTasks opts \<longrightarrow>
      archivedEntry opts = ''1 = 1''
      \<and> ''1 = 1'' \<in> set (filterFragments opts)
      \<and> ''archived IS FALSE'' \<notin> set (filterFragments opts)
      \<and> ''archived IS TRUE'' \<notin> set (filterFragments opts))"
    by (simp add: filterFragments_def closure_defs entry_defs)
  from q [unfolded ff] m show ?thesis by (rule conjI)
qed

theorem getQuery_archived_fragment_witness:
  "\<not> isSubTasks request_defaults \<and> archived request_defaults \<noteq> Some ''true''
   \<and> ''archived IS FALSE'' \<in> set (filterFragments request_defaults)
   \<and> isSubTasks subtask_request \<and> ''1 = 1'' \<in> set (filterFragments subtask_request)
   \<and> \<not> isSubTasks archived_request \<and> archived archived_request = Some ''true''
   \<and> ''archived IS TRUE'' \<in> set (filterFragments archived_request)
   \<and> getQuery no_pagination ''u1'' request_defaults =
       select_head @ ''u1'' @ select_tail @ customColumnsText
       @ '' \<newline>      FROM tasks t\<newline>      WHERE ''
       @ ''parent_task_id IS NULL AND archived IS FALSE AND project_id = $1''
       @ '' \<newline>      ORDER BY sort_order\<newline>    ''"
proof -
  have e: "archivedEntry request_defaults = ''archived IS FALSE''"
      "subTasksFilter request_defaults = ''parent_task_id IS NULL''"
      "assigneeEntry request_defaults = ''project_id = $1''"
    by (simp_all add: request_defaults_def entry_defs isSubTasks_def)
  have c: "getFilterByStatusWhereClosure (statuses request_defaults) = []"
      "getFilterByPriorityWhereClosure (priorities request_defaults) = []"
      "getFilterByLabelsWhereClosure (labels request_defaults) = []"
      "getFilterByMembersWhereClosure (members request_defaults) = []"
      "getFilterByProjectsWhereClosure (projects request_defaults) = []"
    by (simp_all add: request_defaults_def closure_defs)
  have o: "customColumnsQuery request_defaults = customColumnsText"
      "getStatusesQuery (filterBy request_defaults) = []"
      "searchQuery (no_pagination request_defaults s) = []"
      "sortFields (sortField (no_pagination request_defaults s)) = ''sort_order''" for s
    by (simp_all add: request_defaults_def customColumnsQuery_def getStatusesQuery_def
          no_pagination_def sortFields_def)
  have g: "getQuery no_pagination ''u1'' request_defaults =
       select_head @ ''u1'' @ select_tail @ customColumnsText
       @ '' \<newline>      FROM tasks t\<newline>      WHERE ''
       @ ''parent_task_id IS NULL AND archived IS FALSE AND project_id = $1''
       @ '' \<newline>      ORDER BY sort_order\<newline>    ''"
    using getQuery_archived_fragment [where opts = request_defaults
        and toPaginationOptions = no_pagination and userId = "''u1''", THEN conjunct1]
    by (simp add: e c o)
  show ?thesis
    using g
      getQuery_archived_fragment [where opts = request_defaults, THEN conjunct2]
      getQuery_archived_fragment [where opts = subtask_request, THEN conjunct2]
      getQuery_archived_fragment [where opts = archived_request, THEN conjunct2]
    by (simp add: subtask_request_def archived_request_def request_defaults_def isSubTasks_def)
qed

text \<open>
  C5 as stated fails for a sub-task request: the option \<open>archived\<close> is not \<open>"true"\<close>, yet
  the clause does not restrict the result to tasks that are not archived.
\<close>

theorem getQuery_archived_counterexample:
  "archived subtask_request \<noteq> Some ''true''
   \<and> ''archived IS FALSE'' \<notin> set (filterFragments subtask_request)
   \<and> filters subtask_request = ''parent_task_id = $2 AND 1 = 1 AND $1 = $1''"
  by (simp add: subtask_request_def request_defaults_def filterFragments_def filters_def
        closure_defs entry_defs isSubTasks_def)

text \<open>
  C1 (amended). Provided the map has no group under the key \<open>UNMAPPED\<close> beforehand:
  after \<open>updateMapByGroup\<close> the tasks held by all groups together are those held before
  plus every placed input task, each exactly once; a task is placed when its key has a group
  in the map or when it goes to \<open>unmapped\<close> (grouping by phase without a phase id, or a
  dimension that is not partitioned). So the sum of the task counts grows by the number of
  placed tasks, and by the number of input tasks when all of them are placed. A task whose
  key has no group is in no group afterwards.
\<close>

theorem updateMapByGroup_places_resolved_tasks:
  assumes "UNMAPPED \<notin> set (keys m)"
  shows "mset (allTasks (updateMapByGroup UNMAPPED vm ts gb m)) =
           mset (allTasks m) + mset (filter (placed gb m) (decorate vm 0 ts))
         \<and> taskCount (updateMapByGroup UNMAPPED vm ts gb m) =
           taskCount m + length (filter (placed gb m) (decorate vm 0 ts))
         \<and> ((\<forall>t \<in> set (decorate vm 0 ts). placed gb m t) \<longrightarrow>
             taskCount (updateMapByGroup UNMAPPED vm ts gb m) = taskCount m + length ts)"
proof -
  obtain m' un where w: "walk vm gb ts 0 m [] = (m', un)" by (cases "walk vm gb ts 0 m []")
  have un: "un = filter (\<lambda>t. groupKey gb t = None) (decorate vm 0 ts)"
    using walk_unmapped [of vm gb ts 0 m "[]"] w by simp
  have km: "keys m' = keys m" using walk_keys [of vm gb ts 0 m "[]"] w by simp
  have am: "mset (allTasks m') = mset (allTasks m) + mset (filter (resolves gb m) (decorate vm 0 ts))"
    using walk_allTasks [of vm gb ts 0 m "[]"] w by simp
  have "mset (allTasks (updateMapByGroup UNMAPPED vm ts gb m)) = mset (allTasks m') + mset un"
  proof (cases "un = []")
    case True
    then show ?thesis by (simp add: updateMapByGroup_def w)
  next
    case False
    then show ?thesis using assms
      by (simp add: updateMapByGroup_def w allTasks_assign_fresh km unmappedGroup_def)
  qed
  then have 1: "mset (allTasks (updateMapByGroup UNMAPPED vm ts gb m)) =
           mset (allTasks m) + mset (filter (placed gb m) (decorate vm 0 ts))"
    unfolding am un placed_split by simp
  from 1 have "size (mset (allTasks (updateMapByGroup UNMAPPED vm ts gb m))) =
           size (mset (allTasks m) + mset (filter (placed gb m) (decorate vm 0 ts)))"
    by (rule arg_cong)
  then have 2: "taskCount (updateMapByGroup UNMAPPED vm ts gb m) =
           taskCount m + length (filter (placed gb m) (decorate vm 0 ts))"
    by (simp only: taskCount_allTasks size_union size_mset)
  have 3: "(\<forall>t \<in> set (decorate vm 0 ts). placed gb m t) \<longrightarrow>
             taskCount (updateMapByGroup UNMAPPED vm ts gb m) = taskCount m + length ts"
    by (simp add: 2)
  from 1 2 3 show ?thesis by simp
qed

text \<open>Sample data for the witnesses.\<close>

lemma keys_status_shells: "keys status_shells = [''s-todo'', ''s-doing'', ''s-done'']"
  by (simp add: keys_def status_shells_def)

theorem updateMapByGroup_places_resolved_tasks_witness:
  "''unmapped'' \<notin> set (keys status_shells)
   \<and> list_all (placed STATUS status_shells) (decorate id 0 four_tasks)
   \<and> taskCount (updateMapByGroup ''unmapped'' id four_tasks STATUS status_shells) = 4"
proof -
  have h: "''unmapped'' \<notin> set (keys status_shells)" by (simp add: keys_status_shells)
  have p: "list_all (placed STATUS status_shells) (decorate id 0 four_tasks)"
    by (simp add: four_tasks_def row_def placed_def groupKey_def keys_status_shells)
  have c: "taskCount status_shells = 0" by (simp add: taskCount_def status_shells_def shell_def)
  have l: "length four_tasks = 4" by (simp add: four_tasks_def)
  show ?thesis
    using updateMapByGroup_places_resolved_tasks [OF h, of id four_tasks STATUS] h p c l
    by (simp add: list_all_iff)
qed

text \<open>
  C1 as stated fails: grouped by status, a task whose status has no group is pushed nowhere,
  so one input task leaves the sum of the task counts at 0 and the map as it was. The same
  holds by phase for a phase id without a group.
\<close>

theorem updateMapByGroup_drops_unresolved_counterexample:
  "taskCount (updateMapByGroup ''unmapped'' id [stray_task] STATUS status_shells) = 0
   \<and> length [stray_task] = 1
   \<and> updateMapByGroup ''unmapped'' id [stray_task] STATUS status_shells = status_shells
   \<and> updateMapByGroup ''unmapped'' id [stray_task] PHASE phase_shells = phase_shells"
  by (simp add: updateMapByGroup_def taskCount_def sample_defs)

text \<open>
  C8. Provided the map has no group under the key \<open>UNMAPPED\<close> beforehand: the key appears
  only if some task did not resolve to a supplied group; the group stored under it has the
  name \<open>UNMAPPED\<close>, no category, the colour \<open>#fbc84c69\<close> and exactly the tasks the walk
  collected in \<open>unmapped\<close>, at least one; with no tasks the map is returned as it was, and
  when every task resolves the keys are unchanged.
\<close>

theorem updateMapByGroup_unmapped_lazy:
  assumes "UNMAPPED \<notin> set (keys m)"
  shows "(UNMAPPED \<in> set (keys (updateMapByGroup UNMAPPED vm ts gb m)) \<longrightarrow>
            (\<exists>t \<in> set (decorate vm 0 ts). \<not> resolves gb m t))
         \<and> (\<forall>g. (UNMAPPED, g) \<in> set (updateMapByGroup UNMAPPED vm ts gb m) \<longrightarrow>
              name g = UNMAPPED \<and> category_id g = None \<and> color_code g = ''#fbc84c69''
              \<and> tasks g = filter (\<lambda>t. groupKey gb t = None) (decorate vm 0 ts) \<and> tasks g \<noteq> [])
         \<and> updateMapByGroup UNMAPPED vm [] gb m = m
         \<and> ((\<forall>t \<in> set (decorate vm 0 ts). resolves gb m t) \<longrightarrow>
              keys (updateMapByGroup UNMAPPED vm ts gb m) = keys m)"
proof -
  obtain m' un where w: "walk vm gb ts 0 m [] = (m', un)" by (cases "walk vm gb ts 0 m []")
  have un: "un = filter (\<lambda>t. groupKey gb t = None) (decorate vm 0 ts)"
    using walk_unmapped [of vm gb ts 0 m "[]"] w by simp
  have km: "keys m' = keys m" using walk_keys [of vm gb ts 0 m "[]"] w by simp
  have fresh: "UNMAPPED \<notin> set (keys m')" using assms km by simp
  have nopair: "(UNMAPPED, g) \<notin> set m'" for g
    using fresh by (force simp: keys_def)
  have res: "updateMapByGroup UNMAPPED vm ts gb m =
      (if un \<noteq> [] then m' @ [(UNMAPPED, unmappedGroup UNMAPPED un)] else m')"
    using fresh by (simp add: updateMapByGroup_def w set_assign_fresh)
  have nores: "groupKey gb t = None \<Longrightarrow> \<not> resolves gb m t" for t
    by (simp add: resolves_def)
  have 1: "UNMAPPED \<in> set (keys (updateMapByGroup UNMAPPED vm ts gb m)) \<longrightarrow>
            (\<exists>t \<in> set (decorate vm 0 ts). \<not> resolves gb m t)"
  proof
    assume "UNMAPPED \<in> set (keys (updateMapByGroup UNMAPPED vm ts gb m))"
    with res fresh have "un \<noteq> []" by (auto split: if_splits)
    then obtain t where "t \<in> set un" by (cases un) auto
    with un have "t \<in> set (decorate vm 0 ts)" "groupKey gb t = None" by auto
    with nores show "\<exists>t \<in> set (decorate vm 0 ts). \<not> resolves gb m t" by blast
  qed
  have 2: "\<forall>g. (UNMAPPED, g) \<in> set (updateMapByGroup UNMAPPED vm ts gb m) \<longrightarrow>
              name g = UNMAPPED \<and> category_id g = None \<and> color_code g = ''#fbc84c69''
              \<and> tasks g = filter (\<lambda>t. groupKey gb t = None) (decorate vm 0 ts) \<and> tasks g \<noteq> []"
    using nopair un by (auto simp: res unmappedGroup_def split: if_splits)
  have 3: "updateMapByGroup UNMAPPED vm [] gb m = m"
    by (simp add: updateMapByGroup_def)
  have 4: "(\<forall>t \<in> set (decorate vm 0 ts). resolves gb m t) \<longrightarrow>
              keys (updateMapByGroup UNMAPPED vm ts gb m) = keys m"
  proof
    assume a: "\<forall>t \<in> set (decorate vm 0 ts). resolves gb m t"
    have "un = []"
    proof (rule ccontr)
      assume "un \<noteq> []"
      then obtain t where "t \<in> set un" by (cases un) auto
      with un have "t \<in> set (decorate vm 0 ts)" "groupKey gb t = None" by auto
      with nores a show False by blast
    qed
    then show "keys (updateMapByGroup UNMAPPED vm ts gb m) = keys m" by (simp add: res km)
  qed
  from 1 2 3 4 show ?thesis by blast
qed

theorem updateMapByGroup_unmapped_lazy_witness:
  "''unmapped'' \<notin> set (keys phase_shells)
   \<and> ''unmapped'' \<in> set (keys (updateMapByGroup ''unmapped'' id four_tasks PHASE phase_shells))
   \<and> list_ex (\<lambda>t. \<not> resolves PHASE phase_shells t) (decorate id 0 four_tasks)
   \<and> map (\<lambda>(k, g). (k, color_code g, map task_id (tasks g)))
        (updateMapByGroup ''unmapped'' id four_tasks PHASE phase_shells) =
       [(''ph-1'', ''#a9a9a969'', [''B'', ''D'']), (''unmapped'', ''#fbc84c69'', [''A'', ''C''])]
   \<and> list_all (resolves STATUS status_shells) (decorate id 0 four_tasks)
   \<and> keys (updateMapByGroup ''unmapped'' id four_tasks STATUS status_shells) = keys status_shells"
proof -
  have h: "''unmapped'' \<notin> set (keys phase_shells)" by (simp add: keys_def phase_shells_def)
  have h2: "''unmapped'' \<notin> set (keys status_shells)" by (simp add: keys_status_shells)
  have k: "''unmapped'' \<in> set (keys (updateMapByGroup ''unmapped'' id four_tasks PHASE phase_shells))"
    by (simp add: updateMapByGroup_def keys_def sample_defs)
  have r: "list_all (resolves STATUS status_shells) (decorate id 0 four_tasks)"
    by (simp add: four_tasks_def row_def resolves_def groupKey_def keys_status_shells)
  have m: "map (\<lambda>(k, g). (k, color_code g, map task_id (tasks g)))
        (updateMapByGroup ''unmapped'' id four_tasks PHASE phase_shells) =
       [(''ph-1'', ''#a9a9a969'', [''B'', ''D'']), (''unmapped'', ''#fbc84c69'', [''A'', ''C''])]"
    by (simp add: updateMapByGroup_def unmappedGroup_def sample_defs)
  show ?thesis
    using updateMapByGroup_unmapped_lazy [OF h, of id four_tasks PHASE]
      updateMapByGroup_unmapped_lazy [OF h2, of id four_tasks STATUS] h k r m
    by (auto simp: list_all_iff list_ex_iff)
qed

text \<open>
  C6. After \<open>updateTaskProgresses\<close> the three progress values are whole numbers between 0
  and 100, and all three are 0 for a group without tasks.
\<close>

theorem updateTaskProgresses_range:
  "(\<exists>a b c. todo_progress (updateTaskProgresses g) = Some a
        \<and> doing_progress (updateTaskProgresses g) = Some b
        \<and> done_progress (updateTaskProgresses g) = Some c
        \<and> 0 \<le> a \<and> a \<le> 100 \<and> 0 \<le> b \<and> b \<le> 100 \<and> 0 \<le> c \<and> c \<le> 100)
   \<and> (tasks g = [] \<longrightarrow>
        todo_progress (updateTaskProgresses g) = Some 0
        \<and> doing_progress (updateTaskProgresses g) = Some 0
        \<and> done_progress (updateTaskProgresses g) = Some 0)"
proof -
  have r: "c \<le> t \<Longrightarrow> 0 \<le> calculateTaskCompleteRatio c t \<and> calculateTaskCompleteRatio c t \<le> 100" for c t
  proof -
    assume a: "c \<le> t"
    show ?thesis
    proof (cases "t = 0")
      case True
      then show ?thesis by (simp add: calculateTaskCompleteRatio_def)
    next
      case False
      have "200 * c + t \<le> 100 * (2 * t) + t" using a by simp
      then have "(200 * c + t) div (2 * t) \<le> (100 * (2 * t) + t) div (2 * t)"
        by (rule div_le_mono)
      also have "\<dots> = 100" using False by simp
      finally show ?thesis using False by (simp add: calculateTaskCompleteRatio_def)
    qed
  qed
  have z: "calculateTaskCompleteRatio c 0 = 0" for c
    by (simp add: calculateTaskCompleteRatio_def)
  have le: "length (filter P (tasks g)) \<le> length (tasks g)" for P
    by (rule length_filter_le)
  have 1: "\<exists>a b c. todo_progress (updateTaskProgresses g) = Some a
        \<and> doing_progress (updateTaskProgresses g) = Some b
        \<and> done_progress (updateTaskProgresses g) = Some c
        \<and> 0 \<le> a \<and> a \<le> 100 \<and> 0 \<le> b \<and> b \<le> 100 \<and> 0 \<le> c \<and> c \<le> 100"
    using r [OF le [of "flag is_todo"] ] r [OF le [of "flag is_doing"] ] r [OF le [of "flag is_done"] ]
    by (simp add: updateTaskProgresses_def Let_def)
  have 2: "tasks g = [] \<longrightarrow>
        todo_progress (updateTaskProgresses g) = Some 0
        \<and> doing_progress (updateTaskProgresses g) = Some 0
        \<and> done_progress (updateTaskProgresses g) = Some 0"
    by (simp add: updateTaskProgresses_def Let_def z)
  from 1 2 show ?thesis by (rule conjI)
qed

theorem updateTaskProgresses_range_witness:
  "tasks (shell ''Todo'') = []
   \<and> done_progress (updateTaskProgresses (shell ''Todo'')) = Some 0
   \<and> done_progress (updateTaskProgresses ((shell ''Done'')\<lparr>tasks := four_tasks\<rparr>)) = Some 50
   \<and> todo_progress (updateTaskProgresses ((shell ''Done'')\<lparr>tasks := four_tasks\<rparr>)) = Some 25"
  using updateTaskProgresses_range [of "shell ''Todo''"]
    updateTaskProgresses_range [of "(shell ''Done'')\<lparr>tasks := four_tasks\<rparr>"]
  by (simp add: updateTaskProgresses_def Let_def calculateTaskCompleteRatio_def flag_def sample_defs)

text \<open>Helper lemmas on the three-valued logic and the joins of the gate.\<close>

lemma sql_and_True [simp]: "(sql_and a b = Some True) = (a = Some True \<and> b = Some True)"
  by (auto simp: sql_and_def)

lemma sql_eq_True [simp]: "(sql_eq a b = Some True) = (a \<noteq> None \<and> a = b)"
  by (auto simp: sql_eq_def split: option.splits)

lemma sql_in_True [simp]: "(sql_in a xs = Some True) = (a \<noteq> None \<and> a \<in> set xs)"
  by (auto simp: sql_in_def split: option.splits)

lemma sql_not_True [simp]: "(sql_not a = Some True) = (a = Some False)"
  by (cases a) (auto simp: sql_not_def)

lemma sql_in_False: "None \<notin> set xs \<Longrightarrow> (sql_in (Some x) xs = Some False) = (Some x \<notin> set xs)"
  by (auto simp: sql_in_def)

lemma None_notin_categoryIds [simp]: "None \<notin> set (categoryIds db b)"
  by (auto simp: categoryIds_def)

lemma None_notin_doneStatusIds [simp]: "None \<notin> set (doneStatusIds db p)"
  by (auto simp: doneStatusIds_def)

lemma in_categoryIds:
  "(Some k \<in> set (categoryIds db b)) =
     (\<exists>c \<in> set (sys_task_status_categories db). c_id c = k \<and> c_is_done c = Some b)"
  by (auto simp: categoryIds_def)

lemma in_leftJoinTasks:
  "((td, r) \<in> set (leftJoinTasks db)) =
     (td \<in> set (task_dependencies db)
      \<and> (case r of
           None \<Rightarrow> \<forall>t \<in> set (db_tasks db). Some (t_id t) \<noteq> td_related_task_id td
         | Some t \<Rightarrow> t \<in> set (db_tasks db) \<and> Some (t_id t) = td_related_task_id td))"
proof -
  have m: "set (case filter P xs of [] \<Rightarrow> [(d, None)] | r # rs \<Rightarrow> map (\<lambda>t. (d, Some t)) (r # rs)) =
      (if \<forall>t \<in> set xs. \<not> P t then {(d, None)} else {(d, Some t) | t. t \<in> set xs \<and> P t})"
    for P and xs :: "tasks_row list" and d :: task_dependencies_row
  proof (cases "filter P xs")
    case Nil
    then show ?thesis by (auto simp: filter_empty_conv)
  next
    case (Cons r rs)
    then have "set (r # rs) = {t \<in> set xs. P t}" by (metis set_filter)
    moreover from Cons have "\<not> (\<forall>t \<in> set xs. \<not> P t)" by (metis filter_empty_conv list.distinct(1))
    ultimately show ?thesis using Cons by auto
  qed
  show ?thesis
    unfolding leftJoinTasks_def set_concat set_map
    by (auto simp: m split: option.splits if_splits)
qed

lemma nextStatusNotDone_iff:
  "nextStatusNotDone db taskId sid = openStatusOfTaskProject db taskId sid"
proof
  assume "nextStatusNotDone db taskId sid"
  then obtain ts c where ts: "ts \<in> set (task_statuses db)" "Some (ts_id ts) = sid"
      "ts_project_id ts \<noteq> None" "ts_project_id ts = taskProject db taskId"
    and c: "c \<in> set (sys_task_status_categories db)" "ts_category_id ts = Some (c_id c)"
      "c_is_done c = Some False"
    by (auto simp: nextStatusNotDone_def list_ex_iff in_categoryIds)
  from c have "\<exists>c \<in> set (sys_task_status_categories db).
      Some (c_id c) = ts_category_id ts \<and> c_is_done c = Some False"
    by auto
  with ts have "\<exists>ts \<in> set (task_statuses db). Some (ts_id ts) = sid
      \<and> taskProject db taskId \<noteq> None \<and> ts_project_id ts = taskProject db taskId
      \<and> (\<exists>c \<in> set (sys_task_status_categories db).
            Some (c_id c) = ts_category_id ts \<and> c_is_done c = Some False)"
    by metis
  then show "openStatusOfTaskProject db taskId sid"
    by (simp add: openStatusOfTaskProject_def list_ex_iff)
next
  assume "openStatusOfTaskProject db taskId sid"
  then obtain ts c where ts: "ts \<in> set (task_statuses db)" "Some (ts_id ts) = sid"
      "taskProject db taskId \<noteq> None" "ts_project_id ts = taskProject db taskId"
    and c: "c \<in> set (sys_task_status_categories db)" "Some (c_id c) = ts_category_id ts"
      "c_is_done c = Some False"
    by (auto simp: openStatusOfTaskProject_def list_ex_iff)
  from c(1) c(3) have "Some (c_id c) \<in> set (categoryIds db False)"
    by (auto simp: in_categoryIds)
  with ts(3,4) c(2) [symmetric] ts(2) [symmetric] have
    "sql_and (sql_and (sql_eq (Some (ts_id ts)) sid)
                      (sql_eq (ts_project_id ts) (taskProject db taskId)))
             (sql_in (ts_category_id ts) (categoryIds db False)) = Some True"
    by simp
  with ts(1) show "nextStatusNotDone db taskId sid"
    unfolding nextStatusNotDone_def list_ex_iff by (rule rev_bexI)
qed

lemma in_doneStatusIds:
  "(Some s \<in> set (doneStatusIds db p)) = doneStatusOfProject db p (Some s)"
proof
  assume "Some s \<in> set (doneStatusIds db p)"
  then have "\<exists>ts \<in> set (task_statuses db). ts_id ts = s \<and> p \<noteq> None
      \<and> p = ts_project_id ts \<and> ts_category_id ts \<in> set (categoryIds db True)
      \<and> ts_category_id ts \<noteq> None"
    by (auto simp: doneStatusIds_def)
  then obtain ts where ts: "ts \<in> set (task_statuses db)" "ts_id ts = s" "p \<noteq> None"
      "p = ts_project_id ts" "ts_category_id ts \<in> set (categoryIds db True)"
      "ts_category_id ts \<noteq> None"
    by blast
  then obtain k where k: "ts_category_id ts = Some k" by auto
  with ts(5) obtain c where "c \<in> set (sys_task_status_categories db)" "c_id c = k"
      "c_is_done c = Some True"
    by (auto simp: in_categoryIds)
  with k have "\<exists>c \<in> set (sys_task_status_categories db).
      Some (c_id c) = ts_category_id ts \<and> c_is_done c = Some True"
    by auto
  with ts have "\<exists>ts \<in> set (task_statuses db). Some (ts_id ts) = Some s \<and> p \<noteq> None
      \<and> ts_project_id ts = p
      \<and> (\<exists>c \<in> set (sys_task_status_categories db).
            Some (c_id c) = ts_category_id ts \<and> c_is_done c = Some True)"
    by metis
  then show "doneStatusOfProject db p (Some s)"
    by (simp add: doneStatusOfProject_def list_ex_iff)
next
  assume "doneStatusOfProject db p (Some s)"
  then obtain ts c where ts: "ts \<in> set (task_statuses db)" "ts_id ts = s" "p \<noteq> None"
      "ts_project_id ts = p"
    and c: "c \<in> set (sys_task_status_categories db)" "Some (c_id c) = ts_category_id ts"
      "c_is_done c = Some True"
    by (auto simp: doneStatusOfProject_def list_ex_iff)
  from c(1) c(3) have "Some (c_id c) \<in> set (categoryIds db True)"
    by (auto simp: in_categoryIds)
  with ts(3,4) c(2) [symmetric] have
    "sql_and (sql_eq p (ts_project_id ts)) (sql_in (ts_category_id ts) (categoryIds db True))
       = Some True"
    by simp
  with ts(1) have "ts \<in> set (filter (\<lambda>ts.
      sql_and (sql_eq p (ts_project_id ts)) (sql_in (ts_category_id ts) (categoryIds db True))
        = Some True) (task_statuses db))"
    by (simp only: set_filter mem_Collect_eq simp_thms)
  then have "Some (ts_id ts) \<in> set (doneStatusIds db p)"
    unfolding doneStatusIds_def set_map by (rule imageI)
  with ts(2) show "Some s \<in> set (doneStatusIds db p)" by simp
qed

lemma in_dependencyRows:
  "(td \<in> set (dependencyRows db taskId)) =
     (td \<in> set (task_dependencies db) \<and> taskId \<noteq> None \<and> td_task_id td = taskId)"
  by (auto simp: dependencyRows_def)

lemma in_directDependencies:
  "(t \<in> set (directDependencies db taskId)) =
     (\<exists>td \<in> set (dependencyRows db taskId).
        t \<in> set (db_tasks db) \<and> Some (t_id t) = td_related_task_id td)"
  by (auto simp: directDependencies_def)

lemma incompleteDependency_iff:
  assumes "dependenciesPresent db taskId"
  shows "incompleteDependency db taskId =
     (\<not> list_all (\<lambda>t. doneStatusOfProject db (t_project_id t) (t_status_id t))
          (directDependencies db taskId))"
proof
  have present: "\<exists>t \<in> set (db_tasks db). Some (t_id t) = td_related_task_id td"
    if "td \<in> set (dependencyRows db taskId)" for td
    using assms that by (auto simp: dependenciesPresent_def list_all_iff list_ex_iff)
  have status: "t_status_id t \<noteq> None" if "t \<in> set (directDependencies db taskId)" for t
    using assms that by (auto simp: dependenciesPresent_def list_all_iff)
  {
    assume "incompleteDependency db taskId"
    then obtain td r where j: "(td, r) \<in> set (leftJoinTasks db)" "td_task_id td = taskId"
        "taskId \<noteq> None"
        "sql_in (col t_status_id r) (doneStatusIds db (col t_project_id r)) = Some False"
      by (auto simp: incompleteDependency_def list_ex_iff)
    from j(1) have "td \<in> set (task_dependencies db)" by (simp add: in_leftJoinTasks)
    with j(2,3) have td: "td \<in> set (dependencyRows db taskId)" by (simp add: in_dependencyRows)
    from present [OF td] j(1) obtain t where t: "r = Some t" "t \<in> set (db_tasks db)"
        "Some (t_id t) = td_related_task_id td"
      by (cases r) (auto simp: in_leftJoinTasks)
    have d: "t \<in> set (directDependencies db taskId)"
      using td t by (auto simp: in_directDependencies)
    from status [OF d] obtain s where s: "t_status_id t = Some s" by auto
    from j(4) have "Some s \<notin> set (doneStatusIds db (t_project_id t))"
      by (simp add: t(1) col_def s sql_in_False)
    then have "\<not> doneStatusOfProject db (t_project_id t) (t_status_id t)"
      by (simp add: s in_doneStatusIds)
    with d show "\<not> list_all (\<lambda>t. doneStatusOfProject db (t_project_id t) (t_status_id t))
          (directDependencies db taskId)"
      by (auto simp: list_all_iff)
  }
  {
    assume "\<not> list_all (\<lambda>t. doneStatusOfProject db (t_project_id t) (t_status_id t))
          (directDependencies db taskId)"
    then obtain t where d: "t \<in> set (directDependencies db taskId)"
      and n: "\<not> doneStatusOfProject db (t_project_id t) (t_status_id t)"
      by (auto simp: list_all_iff)
    from d obtain td where td: "td \<in> set (dependencyRows db taskId)"
      and t: "t \<in> set (db_tasks db)" "Some (t_id t) = td_related_task_id td"
      by (auto simp: in_directDependencies)
    from td have td': "td \<in> set (task_dependencies db)" "taskId \<noteq> None" "td_task_id td = taskId"
      by (simp_all add: in_dependencyRows)
    from status [OF d] obtain s where s: "t_status_id t = Some s" by auto
    have j: "(td, Some t) \<in> set (leftJoinTasks db)"
      using t td'(1) by (simp add: in_leftJoinTasks)
    from n have "Some s \<notin> set (doneStatusIds db (t_project_id t))"
      by (simp add: s in_doneStatusIds)
    then have "sql_in (col t_status_id (Some t)) (doneStatusIds db (col t_project_id (Some t)))
        = Some False"
      by (simp add: col_def s sql_in_False)
    then have "sql_and (sql_eq (td_task_id td) taskId)
                (sql_not (sql_in (col t_status_id (Some t))
                   (doneStatusIds db (col t_project_id (Some t)))))
          = Some True"
      using td'(2,3) by simp
    with j show "incompleteDependency db taskId"
      unfolding incompleteDependency_def list_ex_iff by force
  }
qed

text \<open>
  C2 (amended). On a store with unique task ids in which every dependency row of the task
  names a task of the store and each of these tasks has a status:
  \<open>checkForCompletedDependencies\<close> returns true whenever the target status is a status of
  the project of the task whose category is marked not done; otherwise it returns false if
  some direct dependency has a status that is not a done status of the project of that
  dependency, and true when every direct dependency, possibly none, has a done status of
  its own project.
\<close>

theorem checkForCompletedDependencies_gate:
  assumes "distinct (map t_id (db_tasks db))" and "dependenciesPresent db taskId"
  shows "checkForCompletedDependencies db taskId nextStatusId = canTransition db taskId nextStatusId"
  by (simp add: checkForCompletedDependencies_def canTransition_def
        nextStatusNotDone_iff incompleteDependency_iff [OF assms(2)])

lemma wf_sample_store: "wf_store sample_store"
  by (auto simp: wf_store_def sample_store_def cat_rows_def status_rows_def task_row_def)

lemmas gate_defs = checkForCompletedDependencies_def nextStatusNotDone_def incompleteDependency_def
  leftJoinTasks_def doneStatusIds_def categoryIds_def taskProject_def col_def
  sql_eq_def sql_and_def sql_in_def sql_not_def

lemmas gate_spec_defs = canTransition_def claimedCanTransition_def statusOfTaskProject_def
  statusIsDone_def directDependencies_def dependencyRows_def taskProject_def sql_eq_def
  openStatusOfTaskProject_def doneStatusOfProject_def dependenciesPresent_def

lemmas store_defs = sample_store_def cat_rows_def status_rows_def task_row_def

text \<open>
  A store in which the dependency \<open>t3\<close> of \<open>t4\<close> carries a done status of another project:
  ids are unique and every reference resolves, and the gate blocks \<open>t4\<close>.
\<close>

theorem checkForCompletedDependencies_gate_witness:
  "distinct (map t_id (db_tasks sample_store))
   \<and> dependenciesPresent sample_store (Some ''t1'')
   \<and> dependenciesPresent sample_store (Some ''t4'')
   \<and> checkForCompletedDependencies sample_store (Some ''t1'') (Some ''s1-todo'') = True
   \<and> checkForCompletedDependencies sample_store (Some ''t1'') (Some ''s1-done'') = False
   \<and> checkForCompletedDependencies sample_store (Some ''t4'') (Some ''s1-done'') = True
   \<and> distinct (map t_id (db_tasks cross_store))
   \<and> dependenciesPresent cross_store (Some ''t4'')
   \<and> checkForCompletedDependencies cross_store (Some ''t4'') (Some ''s1-done'') = False"
proof -
  have d: "distinct (map t_id (db_tasks sample_store))" by (simp add: store_defs)
  have p1: "dependenciesPresent sample_store (Some ''t1'')"
    by (simp add: gate_spec_defs store_defs)
  have p4: "dependenciesPresent sample_store (Some ''t4'')"
    by (simp add: gate_spec_defs store_defs)
  have 1: "canTransition sample_store (Some ''t1'') (Some ''s1-todo'') = True"
    by (simp add: gate_spec_defs store_defs)
  have 2: "canTransition sample_store (Some ''t1'') (Some ''s1-done'') = False"
    by (simp add: gate_spec_defs store_defs)
  have 3: "canTransition sample_store (Some ''t4'') (Some ''s1-done'') = True"
    by (simp add: gate_spec_defs store_defs)
  have dc: "distinct (map t_id (db_tasks cross_store))" by (simp add: cross_store_def store_defs)
  have pc: "dependenciesPresent cross_store (Some ''t4'')"
    by (simp add: gate_spec_defs cross_store_def store_defs)
  have 4: "canTransition cross_store (Some ''t4'') (Some ''s1-done'') = False"
    by (simp add: gate_spec_defs cross_store_def store_defs)
  show ?thesis
    using d p1 p4 dc pc
      checkForCompletedDependencies_gate [OF d p1, of "Some ''s1-todo''"]
      checkForCompletedDependencies_gate [OF d p1, of "Some ''s1-done''"]
      checkForCompletedDependencies_gate [OF d p4, of "Some ''s1-done''"]
      checkForCompletedDependencies_gate [OF dc pc, of "Some ''s1-done''"]
      1 2 3 4
    by simp
qed

text \<open>
  C2 as stated fails: \<open>s2-todo\<close> is a status of another project and not done, so it does
  not belong to the done category of the project of \<open>t1\<close>; the claim has the gate return
  true, but the first test of the query finds no such status in the project of \<open>t1\<close>, the
  dependency \<open>t2\<close> is not done, and the gate returns false.
\<close>

theorem checkForCompletedDependencies_counterexample:
  "wf_store sample_store
   \<and> \<not> statusIsDone sample_store (Some ''s2-todo'')
   \<and> claimedCanTransition sample_store (Some ''t1'') (Some ''s2-todo'') = True
   \<and> checkForCompletedDependencies sample_store (Some ''t1'') (Some ''s2-todo'') = False"
proof -
  have 1: "\<not> statusIsDone sample_store (Some ''s2-todo'')"
    by (simp add: gate_spec_defs store_defs)
  have 2: "claimedCanTransition sample_store (Some ''t1'') (Some ''s2-todo'') = True"
    by (simp add: gate_spec_defs store_defs)
  have 3: "checkForCompletedDependencies sample_store (Some ''t1'') (Some ''s2-todo'') = False"
    by (simp add: gate_defs store_defs)
  from wf_sample_store 1 2 3 show ?thesis by simp
qed

text \<open>Helper lemmas on \<open>MAX(sort_order) + 1\<close>.\<close>

lemma set_sortOrders:
  "set (sortOrders db p) = {s. \<exists>u \<in> set (db_tasks db). inProject p u \<and> t_sort_order u = Some s}"
  by (auto simp: sortOrders_def split: option.splits)

lemma maxSortOrderPlus1_none:
  "(\<forall>u \<in> set (db_tasks db). \<not> inProject p u) \<Longrightarrow> maxSortOrderPlus1 intMax db p = Inr None"
  by (simp add: maxSortOrderPlus1_def sortOrders_def filter_empty_conv [THEN iffD2])

lemma fold_max_sortOrders:
  assumes "\<exists>u \<in> set (db_tasks db). inProject p u \<and> t_sort_order u = Some m"
    and "\<forall>u \<in> set (db_tasks db). \<forall>s. inProject p u \<and> t_sort_order u = Some s \<longrightarrow> s \<le> m"
  shows "\<exists>x xs. sortOrders db p = x # xs \<and> fold max xs x = m"
proof -
  from assms(1) have m: "m \<in> set (sortOrders db p)" by (auto simp: set_sortOrders)
  then obtain x xs where xs: "sortOrders db p = x # xs" by (cases "sortOrders db p") auto
  have "Max (set (sortOrders db p)) = m"
  proof (rule Max_eqI)
    show "finite (set (sortOrders db p))" by simp
    show "m \<in> set (sortOrders db p)" by (rule m)
    show "y \<le> m" if "y \<in> set (sortOrders db p)" for y
      using that assms(2) unfolding set_sortOrders by blast
  qed
  then have "fold max xs x = m" by (simp only: xs Max.set_eq_fold)
  with xs show ?thesis by blast
qed

lemma maxSortOrderPlus1_max:
  assumes "\<exists>u \<in> set (db_tasks db). inProject p u \<and> t_sort_order u = Some m"
    and "\<forall>u \<in> set (db_tasks db). \<forall>s. inProject p u \<and> t_sort_order u = Some s \<longrightarrow> s \<le> m"
  shows "maxSortOrderPlus1 intMax db p =
     (if intMax < m + 1 then Inl IntegerOutOfRange else Inr (Some (m + 1)))"
proof -
  from fold_max_sortOrders [OF assms] obtain x xs
    where "sortOrders db p = x # xs" "fold max xs x = m" by blast
  then show ?thesis by (simp add: maxSortOrderPlus1_def)
qed

lemma updateWithSortOrder_row:
  assumes "i < length (db_tasks db)" and "taskId = Some (t_id (db_tasks db ! i))"
    and "maxSortOrderPlus1 intMax db p = Inr n"
  shows "\<exists>db'. updateWithSortOrder intMax db taskId p f = Inr db'
     \<and> length (db_tasks db') = length (db_tasks db)
     \<and> db_tasks db' ! i = f (coalesce n 0) (db_tasks db ! i)
     \<and> (\<forall>j < length (db_tasks db). Some (t_id (db_tasks db ! j)) \<noteq> taskId \<longrightarrow>
           db_tasks db' ! j = db_tasks db ! j)"
proof -
  have "db_tasks db ! i \<in> set (db_tasks db)" using assms(1) by simp
  then have ex: "list_ex (\<lambda>t. sql_eq (Some (t_id t)) taskId = Some True) (db_tasks db)"
    using assms(2) by (auto simp: list_ex_iff)
  have r: "updateWithSortOrder intMax db taskId p f = Inr (updateTasks db taskId (f (coalesce n 0)))"
    using ex assms(3) by (simp add: updateWithSortOrder_def)
  have "db_tasks (updateTasks db taskId g) ! i = g (db_tasks db ! i)" for g
    using assms(1,2) by (simp add: updateTasks_def sql_eq_def)
  moreover have "\<forall>j < length (db_tasks db). Some (t_id (db_tasks db ! j)) \<noteq> taskId \<longrightarrow>
           db_tasks (updateTasks db taskId g) ! j = db_tasks db ! j" for g
    by (auto simp: updateTasks_def sql_eq_def split: option.splits)
  moreover have "length (db_tasks (updateTasks db taskId g)) = length (db_tasks db)" for g
    by (simp add: updateTasks_def)
  ultimately show ?thesis using r by simp
qed

lemma updateWithSortOrder_error:
  assumes "i < length (db_tasks db)" and "taskId = Some (t_id (db_tasks db ! i))"
    and "maxSortOrderPlus1 intMax db p = Inl e"
  shows "updateWithSortOrder intMax db taskId p f = Inl e"
proof -
  have "db_tasks db ! i \<in> set (db_tasks db)" using assms(1) by simp
  then have ex: "list_ex (\<lambda>t. sql_eq (Some (t_id t)) taskId = Some True) (db_tasks db)"
    using assms(2) by (auto simp: list_ex_iff)
  show ?thesis using ex assms(3) by (simp add: updateWithSortOrder_def)
qed

text \<open>
  C7 (amended). \<open>convertToTask\<close> on the row with the id of the request: when the
  destination project has no task the row keeps its id, loses its parent and gets the sort
  order 0; when \<open>m\<close> is the largest sort order among the tasks of that project and \<open>m + 1\<close>
  is within the integer type of the column, it loses its parent and gets the sort order
  \<open>m + 1\<close>; rows with another id are unchanged. When \<open>m + 1\<close> is beyond the type, the
  statement fails with \<open>integer out of range\<close> and writes nothing.
\<close>

theorem convertToTask_reparents:
  assumes "i < length (db_tasks db)" and "b_id b = Some (t_id (db_tasks db ! i))"
  shows "((\<forall>u \<in> set (db_tasks db). \<not> inProject (b_project_id b) u) \<longrightarrow>
            (\<exists>db'. convertToTask intMax db b = Inr db' \<and> reparentedAt db db' b i 0))
     \<and> (\<forall>m. (\<exists>u \<in> set (db_tasks db). inProject (b_project_id b) u \<and> t_sort_order u = Some m)
            \<and> (\<forall>u \<in> set (db_tasks db). \<forall>s.
                  inProject (b_project_id b) u \<and> t_sort_order u = Some s \<longrightarrow> s \<le> m)
          \<longrightarrow> (if m + 1 \<le> intMax
               then \<exists>db'. convertToTask intMax db b = Inr db' \<and> reparentedAt db db' b i (m + 1)
               else convertToTask intMax db b = Inl IntegerOutOfRange))"
proof -
  let ?f = "\<lambda>n t. t\<lparr>t_parent_task_id := None, t_sort_order := Some n\<rparr>"
  have ok: "\<exists>db'. convertToTask intMax db b = Inr db' \<and> reparentedAt db db' b i (coalesce n 0)"
    if "maxSortOrderPlus1 intMax db (b_project_id b) = Inr n" for n
    using updateWithSortOrder_row [OF assms that, of ?f]
    by (auto simp: convertToTask_def reparentedAt_def)
  have zero: "(\<forall>u \<in> set (db_tasks db). \<not> inProject (b_project_id b) u) \<longrightarrow>
            (\<exists>db'. convertToTask intMax db b = Inr db' \<and> reparentedAt db db' b i 0)"
  proof
    assume "\<forall>u \<in> set (db_tasks db). \<not> inProject (b_project_id b) u"
    then have "maxSortOrderPlus1 intMax db (b_project_id b) = Inr None"
      by (rule maxSortOrderPlus1_none)
    from ok [OF this] show "\<exists>db'. convertToTask intMax db b = Inr db' \<and> reparentedAt db db' b i 0"
      by (simp add: coalesce_def)
  qed
  have succ: "\<forall>m. (\<exists>u \<in> set (db_tasks db). inProject (b_project_id b) u \<and> t_sort_order u = Some m)
            \<and> (\<forall>u \<in> set (db_tasks db). \<forall>s.
                  inProject (b_project_id b) u \<and> t_sort_order u = Some s \<longrightarrow> s \<le> m)
          \<longrightarrow> (if m + 1 \<le> intMax
               then \<exists>db'. convertToTask intMax db b = Inr db' \<and> reparentedAt db db' b i (m + 1)
               else convertToTask intMax db b = Inl IntegerOutOfRange)"
  proof (intro allI impI, elim conjE)
    fix m
    assume "\<exists>u \<in> set (db_tasks db). inProject (b_project_id b) u \<and> t_sort_order u = Some m"
      and "\<forall>u \<in> set (db_tasks db). \<forall>s.
                  inProject (b_project_id b) u \<and> t_sort_order u = Some s \<longrightarrow> s \<le> m"
    then have mx: "maxSortOrderPlus1 intMax db (b_project_id b) =
        (if intMax < m + 1 then Inl IntegerOutOfRange else Inr (Some (m + 1)))"
      by (rule maxSortOrderPlus1_max)
    show "if m + 1 \<le> intMax
          then \<exists>db'. convertToTask intMax db b = Inr db' \<and> reparentedAt db db' b i (m + 1)
          else convertToTask intMax db b = Inl IntegerOutOfRange"
    proof (cases "m + 1 \<le> intMax")
      case True
      with mx have "maxSortOrderPlus1 intMax db (b_project_id b) = Inr (Some (m + 1))" by simp
      from ok [OF this] True show ?thesis by (simp add: coalesce_def)
    next
      case False
      with mx have "maxSortOrderPlus1 intMax db (b_project_id b) = Inl IntegerOutOfRange" by simp
      from updateWithSortOrder_error [OF assms this, of ?f] False show ?thesis
        by (simp add: convertToTask_def)
    qed
  qed
  from zero succ show ?thesis by (rule conjI)
qed

lemmas reparent_defs = convertToTask_def convertToSubtaskStore_def updateWithSortOrder_def
  updateTasks_def maxSortOrderPlus1_def sortOrders_def inProject_def coalesce_def sql_eq_def
  toGroupId_def to_unmapped_def int4_max_def

theorem convertToTask_reparents_witness:
  "2 < length (db_tasks sample_store)
   \<and> b_id (to_unmapped ''status'') = Some (t_id (db_tasks sample_store ! 2))
   \<and> t_parent_task_id (db_tasks sample_store ! 2) = Some ''t2''
   \<and> map t_parent_task_id
        (db_tasks (projr (convertToTask int4_max sample_store (to_unmapped ''status''))))
       = [None, None, None, None]
   \<and> map t_sort_order
        (db_tasks (projr (convertToTask int4_max sample_store (to_unmapped ''status''))))
       = [Some 0, Some 4, Some 5, Some 1]
   \<and> convertToTask int4_max sample_store ((to_unmapped ''status'')\<lparr>b_project_id := Some ''p2''\<rparr>)
       = Inr (sample_store\<lparr>db_tasks :=
           [task_row ''t1'' ''p1'' None ''s1-todo'' 0,
            task_row ''t2'' ''p1'' None ''s1-todo'' 4,
            task_row ''t3'' ''p1'' None ''s1-done'' 0,
            task_row ''t4'' ''p1'' None ''s1-done'' 1]\<rparr>)"
proof -
  have h1: "2 < length (db_tasks sample_store)" by (simp add: store_defs)
  have h2: "b_id (to_unmapped ''status'') = Some (t_id (db_tasks sample_store ! 2))"
    by (simp add: store_defs to_unmapped_def)
  have o: "t_parent_task_id (db_tasks sample_store ! 2) = Some ''t2''" by (simp add: store_defs)
  have a: "map t_parent_task_id
        (db_tasks (projr (convertToTask int4_max sample_store (to_unmapped ''status''))))
       = [None, None, None, None]"
    by (simp add: reparent_defs store_defs)
  have c: "map t_sort_order
        (db_tasks (projr (convertToTask int4_max sample_store (to_unmapped ''status''))))
       = [Some 0, Some 4, Some 5, Some 1]"
    by (simp add: reparent_defs store_defs)
  have z: "convertToTask int4_max sample_store ((to_unmapped ''status'')\<lparr>b_project_id := Some ''p2''\<rparr>)
       = Inr (sample_store\<lparr>db_tasks :=
           [task_row ''t1'' ''p1'' None ''s1-todo'' 0,
            task_row ''t2'' ''p1'' None ''s1-todo'' 4,
            task_row ''t3'' ''p1'' None ''s1-done'' 0,
            task_row ''t4'' ''p1'' None ''s1-done'' 1]\<rparr>)"
    by (simp add: reparent_defs store_defs)
  show ?thesis
    using convertToTask_reparents [OF h1 h2, of int4_max] h1 h2 o a c z by simp
qed

text \<open>
  C7 as stated fails at the top of the integer type: with \<open>INTEGER\<close> and a task of the
  destination project at sort order 2147483647, \<open>MAX(sort_order) + 1\<close> is out of range,
  the statement raises, and the sub-task \<open>t3\<close> keeps its parent and its sort order.
\<close>

theorem convertToTask_overflow_counterexample:
  "b_id (to_unmapped ''status'') = Some (t_id (db_tasks full_store ! 2))
   \<and> t_parent_task_id (db_tasks full_store ! 2) = Some ''t2''
   \<and> map t_sort_order (filter (inProject (b_project_id (to_unmapped ''status''))) (db_tasks full_store))
       = [Some 0, Some 2147483647, Some 2, Some 1]
   \<and> convertToTask 2147483647 full_store (to_unmapped ''status'') = Inl IntegerOutOfRange"
  by (simp add: reparent_defs full_store_def store_defs)

lemma update_texts_nonempty:
  "statusUpdateText \<noteq> []" "priorityUpdateText \<noteq> []"
  by (simp_all add: statusUpdateText_def priorityUpdateText_def)

text \<open>
  C10. When the destination group id of the request equals \<open>UNMAPPED\<close>, the parameter
  \<open>convertToSubtask\<close> passes for it is \<open>NULL\<close>: as \<open>$4\<close> of the update of \<open>status_id\<close> or
  \<open>priority_id\<close>, or as \<open>$2\<close> of \<open>handle_on_task_phase_change\<close>; the row the update writes
  then has \<open>NULL\<close> as its status or priority. The earlier update of the phase branch does
  not use the group id.
\<close>

theorem convertToSubtask_unmapped_is_null:
  assumes "to_group_id b = Some UNMAPPED"
  shows "toGroupId UNMAPPED b = None
     \<and> (group_by b = Some ''status'' \<longrightarrow>
          convertToSubtask UNMAPPED b =
            [(statusUpdateText, [b_id b, b_project_id b, b_parent_task_id b, None]),
             (''SELECT get_single_task($1) AS task;'', [b_id b])])
     \<and> (group_by b = Some ''priority'' \<longrightarrow>
          convertToSubtask UNMAPPED b =
            [(priorityUpdateText, [b_id b, b_project_id b, b_parent_task_id b, None]),
             (''SELECT get_single_task($1) AS task;'', [b_id b])])
     \<and> (group_by b = Some ''phase'' \<longrightarrow>
          convertToSubtask UNMAPPED b =
            [(phaseUpdateText, [b_id b, b_project_id b, b_parent_task_id b]),
             (''SELECT handle_on_task_phase_change($1, $2);'', [b_id b, None]),
             (''SELECT get_single_task($1) AS task;'', [b_id b])])
     \<and> (\<forall>i < length (db_tasks db). b_id b = Some (t_id (db_tasks db ! i)) \<longrightarrow>
          (\<forall>n. maxSortOrderPlus1 intMax db (b_project_id b) = Inr n \<longrightarrow>
             (group_by b = Some ''status'' \<longrightarrow>
                (\<exists>db'. convertToSubtaskStore intMax UNMAPPED db b = Inr db'
                   \<and> t_status_id (db_tasks db' ! i) = None))
             \<and> (group_by b = Some ''priority'' \<longrightarrow>
                (\<exists>db'. convertToSubtaskStore intMax UNMAPPED db b = Inr db'
                   \<and> t_priority_id (db_tasks db' ! i) = None))))"
proof -
  have g: "toGroupId UNMAPPED b = None" using assms by (simp add: toGroupId_def)
  have calls: "(group_by b = Some ''status'' \<longrightarrow>
          convertToSubtask UNMAPPED b =
            [(statusUpdateText, [b_id b, b_project_id b, b_parent_task_id b, None]),
             (''SELECT get_single_task($1) AS task;'', [b_id b])])
     \<and> (group_by b = Some ''priority'' \<longrightarrow>
          convertToSubtask UNMAPPED b =
            [(priorityUpdateText, [b_id b, b_project_id b, b_parent_task_id b, None]),
             (''SELECT get_single_task($1) AS task;'', [b_id b])])
     \<and> (group_by b = Some ''phase'' \<longrightarrow>
          convertToSubtask UNMAPPED b =
            [(phaseUpdateText, [b_id b, b_project_id b, b_parent_task_id b]),
             (''SELECT handle_on_task_phase_change($1, $2);'', [b_id b, None]),
             (''SELECT get_single_task($1) AS task;'', [b_id b])])"
    by (simp add: convertToSubtask_def g Let_def update_texts_nonempty)
  have rows: "\<forall>i < length (db_tasks db). b_id b = Some (t_id (db_tasks db ! i)) \<longrightarrow>
          (\<forall>n. maxSortOrderPlus1 intMax db (b_project_id b) = Inr n \<longrightarrow>
             (group_by b = Some ''status'' \<longrightarrow>
                (\<exists>db'. convertToSubtaskStore intMax UNMAPPED db b = Inr db'
                   \<and> t_status_id (db_tasks db' ! i) = None))
             \<and> (group_by b = Some ''priority'' \<longrightarrow>
                (\<exists>db'. convertToSubtaskStore intMax UNMAPPED db b = Inr db'
                   \<and> t_priority_id (db_tasks db' ! i) = None)))"
  proof (intro allI impI conjI)
    fix i n
    assume i: "i < length (db_tasks db)" "b_id b = Some (t_id (db_tasks db ! i))"
      and n: "maxSortOrderPlus1 intMax db (b_project_id b) = Inr n"
    {
      assume s: "group_by b = Some ''status''"
      from updateWithSortOrder_row [OF i n,
          of "\<lambda>n t. t\<lparr>t_parent_task_id := b_parent_task_id b, t_sort_order := Some n,
                   t_status_id := toGroupId UNMAPPED b\<rparr>"]
      show "\<exists>db'. convertToSubtaskStore intMax UNMAPPED db b = Inr db'
                   \<and> t_status_id (db_tasks db' ! i) = None"
        by (auto simp: convertToSubtaskStore_def s g)
    }
    {
      assume s: "group_by b = Some ''priority''"
      from updateWithSortOrder_row [OF i n,
          of "\<lambda>n t. t\<lparr>t_parent_task_id := b_parent_task_id b, t_sort_order := Some n,
                   t_priority_id := toGroupId UNMAPPED b\<rparr>"]
      show "\<exists>db'. convertToSubtaskStore intMax UNMAPPED db b = Inr db'
                   \<and> t_priority_id (db_tasks db' ! i) = None"
        by (auto simp: convertToSubtaskStore_def s g)
    }
  qed
  from g calls rows show ?thesis by simp
qed

theorem convertToSubtask_unmapped_is_null_witness:
  "to_group_id (to_unmapped ''status'') = Some ''unmapped''
   \<and> map snd (convertToSubtask ''unmapped'' (to_unmapped ''status'')) =
       [ [Some ''t3'', Some ''p1'', Some ''t1'', None], [Some ''t3''] ]
   \<and> map snd (convertToSubtask ''unmapped'' (to_unmapped ''phase'')) =
       [ [Some ''t3'', Some ''p1'', Some ''t1''], [Some ''t3'', None], [Some ''t3''] ]
   \<and> t_status_id (db_tasks sample_store ! 2) = Some ''s1-done''
   \<and> maxSortOrderPlus1 int4_max sample_store (b_project_id (to_unmapped ''status'')) = Inr (Some 5)
   \<and> map t_status_id
        (db_tasks (projr (convertToSubtaskStore int4_max ''unmapped'' sample_store
           (to_unmapped ''status''))))
       = [Some ''s1-todo'', Some ''s1-todo'', None, Some ''s1-done'']"
proof -
  have h: "to_group_id (to_unmapped g) = Some ''unmapped''" for g by (simp add: to_unmapped_def)
  have i: "2 < length (db_tasks sample_store)"
    "b_id (to_unmapped ''status'') = Some (t_id (db_tasks sample_store ! 2))"
    "t_status_id (db_tasks sample_store ! 2) = Some ''s1-done''"
    by (simp_all add: sample_store_def task_row_def to_unmapped_def)
  have f: "b_id (to_unmapped g) = Some ''t3''" "b_project_id (to_unmapped g) = Some ''p1''"
    "b_parent_task_id (to_unmapped g) = Some ''t1''" "group_by (to_unmapped g) = Some g" for g
    by (simp_all add: to_unmapped_def)
  have m: "maxSortOrderPlus1 int4_max sample_store (b_project_id (to_unmapped ''status'')) = Inr (Some 5)"
    by (simp add: reparent_defs store_defs)
  have r: "map t_status_id
        (db_tasks (projr (convertToSubtaskStore int4_max ''unmapped'' sample_store
           (to_unmapped ''status''))))
       = [Some ''s1-todo'', Some ''s1-todo'', None, Some ''s1-done'']"
    by (simp add: reparent_defs store_defs)
  show ?thesis
    using convertToSubtask_unmapped_is_null [OF h, of "''status''" sample_store int4_max]
      convertToSubtask_unmapped_is_null [OF h, of "''phase''" sample_store int4_max] h i f m r
    by simp
qed

text \<open>
  C9 (evaluation of the code). With two labels the handler issues both writes one after
  the other and then sends the response; no write is awaited in between. The order the
  claim describes awaits each write before the next is issued and before the response.
\<close>

theorem assignLabelsToTask_fire_and_forget:
  "assignLabelsToTask (Some ''t1'') [''l1'', ''l2''] =
     [QueryIssued ''SELECT add_or_remove_task_label($1, $2) AS labels;'' [Some ''t1'', Some ''l1''],
      QueryIssued ''SELECT add_or_remove_task_label($1, $2) AS labels;'' [Some ''t1'', Some ''l2''],
      ResponseSent 200 True ''Labels assigned successfully'']
   \<and> assignLabelsSequentially (Some ''t1'') [''l1'', ''l2''] =
     [QueryIssued ''SELECT add_or_remove_task_label($1, $2) AS labels;'' [Some ''t1'', Some ''l1''],
      QueryAwaited ''SELECT add_or_remove_task_label($1, $2) AS labels;'' [Some ''t1'', Some ''l1''],
      QueryIssued ''SELECT add_or_remove_task_label($1, $2) AS labels;'' [Some ''t1'', Some ''l2''],
      QueryAwaited ''SELECT add_or_remove_task_label($1, $2) AS labels;'' [Some ''t1'', Some ''l2''],
      ResponseSent 200 True ''Labels assigned successfully'']"
  by (simp add: assignLabelsToTask_def assignLabelsSequentially_def)

end
